theory Spec2Isabelle
  imports Complex_Main
begin

section \<open>JavaScript values\<close>

text \<open>
  The server is written in JavaScript and handles JSON documents whose shape is not
  checked anywhere, so the embedding works on dynamically typed values. A string is the
  list of its UTF-16 code units (what \<^verbatim>\<open>charCodeAt\<close> reads). Numbers are IEEE doubles in
  the source; the embedding takes a finite one as the real number it stands for, with
  \<open>JNaN\<close> for NaN. Rounding is outside the model. Overflow is modelled where the code
  can reach it, in the decay function; a document never holds an infinite number (JSON
  has none).
\<close>

type_synonym jsstring = "nat list"

definition utf16 :: "string \<Rightarrow> jsstring" where
  "utf16 s = map of_char s"

datatype jsval =
    Undefined
  | JNull
  | JBool bool
  | JNum real
  | JNaN
  | JStr jsstring
  | JArr "jsval list"
  | JObj "(jsstring \<times> jsval) list"

datatype error =
    TypeError
  | EmbeddingError
  | ConnectionError
  | ClientError
  | IndexError
  | UnknownTool

text \<open>Truthiness, as tested by \<^verbatim>\<open>if (x)\<close>, \<^verbatim>\<open>!x\<close>, \<^verbatim>\<open>x && y\<close> and \<^verbatim>\<open>x || y\<close>.\<close>

fun truthy :: "jsval \<Rightarrow> bool" where
  "truthy Undefined = False"
| "truthy JNull = False"
| "truthy (JBool b) = b"
| "truthy (JNum r) = (r \<noteq> 0)"
| "truthy JNaN = False"
| "truthy (JStr s) = (s \<noteq> [])"
| "truthy (JArr xs) = True"
| "truthy (JObj kvs) = True"

text \<open>\<^verbatim>\<open>a || b\<close> on values.\<close>

definition js_or :: "jsval \<Rightarrow> jsval \<Rightarrow> jsval" where
  "js_or a b = (if truthy a then a else b)"

subsection \<open>Decimal rendering of a non-negative integer\<close>

fun show_nat :: "nat \<Rightarrow> jsstring" where
  "show_nat n = (if n < 10 then [48 + n] else show_nat (n div 10) @ [48 + n mod 10])"

declare show_nat.simps [simp del]

subsection \<open>Objects\<close>

text \<open>
  An object is the list of its own properties, each name once, in insertion order.
  Writing a property that exists keeps its place; a new one goes to the end.
\<close>

definition obj_get :: "(jsstring \<times> jsval) list \<Rightarrow> jsstring \<Rightarrow> jsval" where
  "obj_get kvs k = (case map_of kvs k of None \<Rightarrow> Undefined | Some v \<Rightarrow> v)"

fun obj_set :: "(jsstring \<times> jsval) list \<Rightarrow> jsstring \<Rightarrow> jsval \<Rightarrow> (jsstring \<times> jsval) list" where
  "obj_set [] k v = [(k, v)]"
| "obj_set ((k', v') # kvs) k v =
     (if k' = k then (k, v) # kvs else (k', v') # obj_set kvs k v)"

definition has_key :: "(jsstring \<times> jsval) list \<Rightarrow> jsstring \<Rightarrow> bool" where
  "has_key kvs k = (k \<in> fst ` set kvs)"

text \<open>
  The own enumerable properties that \<^verbatim>\<open>{...x}\<close> copies: those of an object, the
  indexed elements of an array, the indexed code units of a string, nothing otherwise
  (also nothing for \<^verbatim>\<open>undefined\<close> and \<^verbatim>\<open>null\<close>).
\<close>

fun indexed :: "nat \<Rightarrow> jsval list \<Rightarrow> (jsstring \<times> jsval) list" where
  "indexed i [] = []"
| "indexed i (x # xs) = (show_nat i, x) # indexed (Suc i) xs"

fun spread :: "jsval \<Rightarrow> (jsstring \<times> jsval) list" where
  "spread (JObj kvs) = kvs"
| "spread (JArr xs) = indexed 0 xs"
| "spread (JStr s) = indexed 0 (map (\<lambda>c. JStr [c]) s)"
| "spread v = []"

text \<open>
  Reading a property \<^verbatim>\<open>x.k\<close>, for the data properties the code reads (none of them is
  inherited from a prototype): a TypeError on \<^verbatim>\<open>undefined\<close> and \<^verbatim>\<open>null\<close>,
  \<^verbatim>\<open>undefined\<close> when the property is missing.
\<close>

fun js_get :: "jsval \<Rightarrow> jsstring \<Rightarrow> error + jsval" where
  "js_get Undefined k = Inl TypeError"
| "js_get JNull k = Inl TypeError"
| "js_get (JObj kvs) k = Inr (obj_get kvs k)"
| "js_get (JArr xs) k =
     Inr (if k = utf16 ''length'' then JNum (real (length xs)) else obj_get (indexed 0 xs) k)"
| "js_get (JStr s) k =
     Inr (if k = utf16 ''length'' then JNum (real (length s))
          else obj_get (indexed 0 (map (\<lambda>c. JStr [c]) s)) k)"
| "js_get v k = Inr Undefined"

text \<open>Optional chaining \<^verbatim>\<open>x?.k\<close>.\<close>

definition js_get_opt :: "jsval \<Rightarrow> jsstring \<Rightarrow> jsval" where
  "js_get_opt x k = (case js_get x k of Inl e \<Rightarrow> Undefined | Inr v \<Rightarrow> v)"

section \<open>The external collaborators\<close>

text \<open>
  What the source takes from outside itself is a parameter of the embedding: the
  embedding service, the reachability of the key-value store, the ranking the vector
  index gives its documents and the number of results it reads in the text of a KNN
  clause, the runtime's date formatting and parsing, its conversions between numbers
  and strings (other than the decimal text of an integer), and the order its sort gives
  an array under a comparator that is not an ordering. The collaborators are deterministic
  here (the same text gets the same vector or the same failure). The clock is read from
  the world and stands still during one operation. The encoding of a vector as 32-bit
  floats for storage is not modelled: the store keeps the vector.
\<close>

type_synonym embedding = "real list"

record hash_rec =
  h_category :: "jsstring option"
  h_memory_type :: "jsstring option"
  h_content :: "jsstring option"
  h_metadata :: "jsval option"
  h_embedding :: "embedding option"

record env =
  generateEmbedding :: "jsval \<Rightarrow> embedding option"
  redis_up :: bool
  redis_arg :: "jsval \<Rightarrow> jsstring option"
  knn_rank :: "embedding \<Rightarrow> (jsstring \<times> hash_rec) list \<Rightarrow> (jsstring \<times> hash_rec) list"
  toISOString :: "real \<Rightarrow> jsstring"
  date_parse :: "jsval \<Rightarrow> real option"
  string_to_number :: "jsstring \<Rightarrow> real option"
  number_to_string :: "real \<Rightarrow> jsstring"
  knn_count :: "jsstring \<Rightarrow> nat option"
  index_present :: bool
  runtime_sort :: "jsval list \<Rightarrow> jsval list"

text \<open>
  The calls the server issues to its collaborators, in order. \<open>RedisHSet\<close> and
  \<open>RedisExpire\<close> are the only writes.
\<close>

datatype call =
    EmbedCall jsval
  | RedisConnect
  | RedisHSet jsstring
  | RedisExpire jsstring jsval
  | RedisSearch
  | RedisQuit
  | RedisHGetAll jsstring
  | RedisPing
  | RedisInfo

text \<open>
  The world: the hashes under the \<^verbatim>\<open>pattern:\<close> prefix (the stored metadata is the JSON
  document, not its text), the expirations set on keys, the calls issued so far, the
  clock in milliseconds since the epoch, and the hashes under the \<^verbatim>\<open>reminder:\<close>
  prefix, each field holding the JSON object that was stored in it.
\<close>

record world =
  store :: "(jsstring \<times> hash_rec) list"
  expiry :: "jsstring \<Rightarrow> jsval option"
  calls :: "call list"
  clock :: real
  reminders :: "(jsstring \<times> (jsstring \<times> (jsstring \<times> jsval) list) list) list"

definition issue :: "call list \<Rightarrow> world \<Rightarrow> world" where
  "issue cs w = w\<lparr>calls := calls w @ cs\<rparr>"

section \<open>Conversions of the runtime\<close>

fun join_comma :: "jsstring list \<Rightarrow> jsstring" where
  "join_comma [] = []"
| "join_comma [s] = s"
| "join_comma (s # t # ss) = s @ utf16 '','' @ join_comma (t # ss)"

text \<open>
  \<^verbatim>\<open>String(v)\<close>, as a template literal applies it. An integer below \<open>10^21\<close> in
  absolute value is written in decimal digits; the text of any other number is the
  runtime's.
\<close>

definition int_digits :: "int \<Rightarrow> jsstring" where
  "int_digits i = (if i < 0 then utf16 ''-'' @ show_nat (nat (- i)) else show_nat (nat i))"

fun to_string :: "env \<Rightarrow> jsval \<Rightarrow> jsstring" where
  "to_string env Undefined = utf16 ''undefined''"
| "to_string env JNull = utf16 ''null''"
| "to_string env (JBool b) = (if b then utf16 ''true'' else utf16 ''false'')"
| "to_string env (JNum r) =
     (if r = of_int \<lfloor>r\<rfloor> \<and> \<bar>r\<bar> < 10 ^ 21 then int_digits \<lfloor>r\<rfloor> else number_to_string env r)"
| "to_string env JNaN = utf16 ''NaN''"
| "to_string env (JStr s) = s"
| "to_string env (JArr xs) =
     join_comma (map (\<lambda>x. if x = Undefined \<or> x = JNull then [] else to_string env x) xs)"
| "to_string env (JObj kvs) = utf16 ''[object Object]''"

definition to_primitive :: "env \<Rightarrow> jsval \<Rightarrow> jsval" where
  "to_primitive env v =
     (case v of JArr xs \<Rightarrow> JStr (to_string env v) | JObj kvs \<Rightarrow> JStr (to_string env v) | _ \<Rightarrow> v)"

text \<open>\<^verbatim>\<open>Number(v)\<close>; \<open>None\<close> is NaN.\<close>

definition to_number :: "env \<Rightarrow> jsval \<Rightarrow> real option" where
  "to_number env v =
     (case to_primitive env v of
        Undefined \<Rightarrow> None
      | JNull \<Rightarrow> Some 0
      | JBool b \<Rightarrow> Some (if b then 1 else 0)
      | JNum r \<Rightarrow> Some r
      | JNaN \<Rightarrow> None
      | JStr s \<Rightarrow> string_to_number env s
      | _ \<Rightarrow> None)"

fun str_lt :: "jsstring \<Rightarrow> jsstring \<Rightarrow> bool" where
  "str_lt [] [] = False"
| "str_lt [] (y # ys) = True"
| "str_lt (x # xs) [] = False"
| "str_lt (x # xs) (y # ys) = (x < y \<or> (x = y \<and> str_lt xs ys))"

text \<open>
  \<^verbatim>\<open>a >= b\<close> and \<^verbatim>\<open>a < b\<close>: two strings compare by code units, anything else as
  numbers, and a comparison with NaN is false.
\<close>

definition js_ge :: "env \<Rightarrow> jsval \<Rightarrow> jsval \<Rightarrow> bool" where
  "js_ge env a b =
     (case (to_primitive env a, to_primitive env b) of
        (JStr s, JStr t) \<Rightarrow> \<not> str_lt s t
      | (x, y) \<Rightarrow>
          (case (to_number env x, to_number env y) of
             (Some r, Some q) \<Rightarrow> q \<le> r
           | _ \<Rightarrow> False))"

definition js_lt :: "env \<Rightarrow> jsval \<Rightarrow> jsval \<Rightarrow> bool" where
  "js_lt env a b =
     (case (to_primitive env a, to_primitive env b) of
        (JStr s, JStr t) \<Rightarrow> str_lt s t
      | (x, y) \<Rightarrow>
          (case (to_number env x, to_number env y) of
             (Some r, Some q) \<Rightarrow> r < q
           | _ \<Rightarrow> False))"

section \<open>Memory configuration\<close>

text \<open>The name and the ttl of each entry of \<^verbatim>\<open>MEMORY_TYPES\<close>, in the order of the source.\<close>

definition MEMORY_TYPES :: "(jsstring \<times> jsval) list" where
  "MEMORY_TYPES =
     [(utf16 ''semantic'', JNull),
      (utf16 ''episodic'', JNum (90 * 24 * 60 * 60)),
      (utf16 ''procedural'', JNull)]"

definition EPISODIC_TO_SEMANTIC :: real where "EPISODIC_TO_SEMANTIC = 5"
definition SEMANTIC_TO_LONGTERM :: real where "SEMANTIC_TO_LONGTERM = 20"
definition MIN_CONFIDENCE :: real where "MIN_CONFIDENCE = 95 / 100"

section \<open>Helper functions\<close>

subsection \<open>hashCode\<close>

text \<open>
  \<^verbatim>\<open>hash << 5\<close> and \<^verbatim>\<open>hash & hash\<close> convert their result to a signed 32-bit integer;
  the subtraction and the addition between them are exact in a double.
\<close>

definition to_int32 :: "int \<Rightarrow> int" where
  "to_int32 x = signed_take_bit 31 x"

definition hash_step :: "int \<Rightarrow> nat \<Rightarrow> int" where
  "hash_step hash char = to_int32 (to_int32 (hash * 2 ^ 5) - hash + int char)"

definition hash_string :: "jsstring \<Rightarrow> int" where
  "hash_string str = foldl hash_step 0 str"

text \<open>
  On a value that is not a string the loop reads \<^verbatim>\<open>str.length\<close>: a TypeError on
  \<^verbatim>\<open>undefined\<close> and \<^verbatim>\<open>null\<close>; no iteration when the length is missing or not above
  0; otherwise the first iteration calls \<^verbatim>\<open>charCodeAt\<close>, which only a string has.
\<close>

definition hashCode :: "env \<Rightarrow> jsval \<Rightarrow> error + int" where
  "hashCode env str =
     (case str of
        JStr s \<Rightarrow> Inr (hash_string s)
      | _ \<Rightarrow>
          (case js_get str (utf16 ''length'') of
             Inl e \<Rightarrow> Inl e
           | Inr len \<Rightarrow> if js_lt env (JNum 0) len then Inl TypeError else Inr 0))"

text \<open>\<^verbatim>\<open>Math.abs(h) % 100000000\<close>.\<close>

definition digest :: "int \<Rightarrow> nat" where
  "digest h = nat (\<bar>h\<bar> mod 100000000)"

subsection \<open>calculateConfidenceDecay\<close>

text \<open>
  The values a double can take in this function: a finite number, the two infinities
  and NaN. \<open>DBL_MAX\<close> is the largest finite double.
\<close>

datatype double = Fin real | PInf | NInf | NaN

definition DBL_MAX :: real where
  "DBL_MAX = (2 - 1 / 2 ^ 52) * 2 ^ 1023"

text \<open>
  \<^verbatim>\<open>Math.pow(b, x)\<close> for a positive base: the power, and \<^verbatim>\<open>Infinity\<close> when the power is
  too large for a double.
\<close>

definition Math_pow :: "real \<Rightarrow> real \<Rightarrow> double" where
  "Math_pow b x = (if DBL_MAX < b powr x then PInf else Fin (b powr x))"

text \<open>
  The product \<^verbatim>\<open>c * d\<close> of a finite number and a double: it overflows to an infinity of
  its sign, an infinity keeps or changes its sign with the sign of \<open>c\<close>, and
  \<^verbatim>\<open>0 * Infinity\<close> is NaN.
\<close>

fun times :: "real \<Rightarrow> double \<Rightarrow> double" where
  "times c (Fin p) =
     (if DBL_MAX < c * p then PInf else if c * p < - DBL_MAX then NInf else Fin (c * p))"
| "times c PInf = (if c = 0 then NaN else if 0 < c then PInf else NInf)"
| "times c NInf = (if c = 0 then NaN else if 0 < c then NInf else PInf)"
| "times c NaN = NaN"

declare times.simps [simp del]

text \<open>
  \<^verbatim>\<open>Math.max(0, Math.min(1, d))\<close>: a number or an infinity lands in \<open>[0, 1]\<close>, NaN
  stays NaN.
\<close>

fun clamp :: "double \<Rightarrow> jsval" where
  "clamp (Fin r) = JNum (max 0 (min 1 r))"
| "clamp PInf = JNum 1"
| "clamp NInf = JNum 0"
| "clamp NaN = JNaN"

text \<open>
  \<open>now\<close> is the value of \<^verbatim>\<open>new Date()\<close>. An invalid date makes the elapsed time, and
  with it the result, NaN, as does a confidence that is not a number.
\<close>

definition calculateConfidenceDecay :: "env \<Rightarrow> real \<Rightarrow> jsval \<Rightarrow> jsval \<Rightarrow> jsval" where
  "calculateConfidenceDecay env now confidence lastValidated =
     (if \<not> truthy lastValidated then confidence
      else
        (case date_parse env lastValidated of
           None \<Rightarrow> JNaN
         | Some lastValidatedDate \<Rightarrow>
             (let monthsSinceLastUse = (now - lastValidatedDate) / (1000 * 60 * 60 * 24 * 30)
              in case to_number env confidence of
                   None \<Rightarrow> JNaN
                 | Some c \<Rightarrow>
                     (let decayedConfidence = times c (Math_pow (95 / 100) monthsSinceLastUse)
                      in clamp decayedConfidence))))"

section \<open>Tool handlers\<close>

subsection \<open>The stored form of the metadata\<close>

text \<open>
  The metadata is stored as \<^verbatim>\<open>JSON.stringify(enrichedMetadata)\<close> and read back with
  \<^verbatim>\<open>JSON.parse\<close>. The embedding keeps the document instead of its text: what parsing
  the text gives back, which is the value without its \<^verbatim>\<open>undefined\<close> properties and
  with \<^verbatim>\<open>null\<close> for NaN and for an \<^verbatim>\<open>undefined\<close> array element.
\<close>

fun json_rt :: "jsval \<Rightarrow> jsval" where
  "json_rt (JArr xs) = JArr (map (\<lambda>x. if x = Undefined then JNull else json_rt x) xs)"
| "json_rt (JObj kvs) =
     JObj (filter (\<lambda>kv. snd kv \<noteq> Undefined) (map (\<lambda>kv. (fst kv, json_rt (snd kv))) kvs))"
| "json_rt JNaN = JNull"
| "json_rt v = v"

subsection \<open>storePattern\<close>

record store_result =
  pattern_id :: jsstring
  memory_type :: jsval
  ttl_seconds :: jsval
  status :: jsstring

text \<open>The object literal \<^verbatim>\<open>enrichedMetadata\<close>, evaluated in the order it is written.\<close>

definition enrichedMetadata :: "env \<Rightarrow> real \<Rightarrow> jsval \<Rightarrow> error + jsval" where
  "enrichedMetadata env now metadata =
     (let o1 = obj_set (spread metadata) (utf16 ''created_at'') (JStr (toISOString env now));
          o2 = obj_set o1 (utf16 ''last_validated'') (JStr (toISOString env now))
      in case js_get metadata (utf16 ''source'') of
           Inl e \<Rightarrow> Inl e
         | Inr src \<Rightarrow>
             (let o3 = obj_set o2 (utf16 ''source'') (js_or src (JStr (utf16 ''unknown'')))
              in case js_get metadata (utf16 ''validation_contexts'') of
                   Inl e \<Rightarrow> Inl e
                 | Inr vc \<Rightarrow>
                     Inr (JObj (obj_set o3 (utf16 ''validation_contexts'') (js_or vc (JArr []))))))"

text \<open>
  \<^verbatim>\<open>Object.values(MEMORY_TYPES).find(m => m.name === memoryType)?.ttl\<close>.
\<close>

definition ttl_of :: "jsval \<Rightarrow> jsval" where
  "ttl_of memoryType =
     (case find (\<lambda>m. JStr (fst m) = memoryType) MEMORY_TYPES of
        None \<Rightarrow> Undefined
      | Some m \<Rightarrow> snd m)"

definition patternId_of :: "env \<Rightarrow> jsval \<Rightarrow> jsval \<Rightarrow> int \<Rightarrow> jsstring" where
  "patternId_of env memoryType category h =
     utf16 ''pattern:'' @ to_string env memoryType @ utf16 '':'' @ to_string env category
       @ utf16 '':'' @ show_nat (digest h)"

text \<open>
  The client sends a string field as it is; what it does with a field value that is
  not a string (convert it or refuse it) is the collaborator's \<open>redis_arg\<close>.
\<close>

definition field_arg :: "env \<Rightarrow> jsval \<Rightarrow> jsstring option" where
  "field_arg env v = (case v of JStr s \<Rightarrow> Some s | _ \<Rightarrow> redis_arg env v)"

fun redis_hset :: "(jsstring \<times> hash_rec) list \<Rightarrow> jsstring \<Rightarrow> hash_rec \<Rightarrow> (jsstring \<times> hash_rec) list" where
  "redis_hset [] k h = [(k, h)]"
| "redis_hset ((k', h') # st) k h =
     (if k' = k then (k, h) # st else (k', h') # redis_hset st k h)"

text \<open>
  The steps of \<^verbatim>\<open>storePattern\<close> in order: the embedding, the key, the enriched
  metadata, the ttl of the tier, then the connection, \<^verbatim>\<open>hSet\<close>, \<^verbatim>\<open>expire\<close> when the
  ttl is truthy, and \<^verbatim>\<open>quit\<close> in the \<^verbatim>\<open>finally\<close>. An exception leaves through \<open>Inl\<close>
  with the world as it was when it was raised.
\<close>

definition storePattern ::
  "env \<Rightarrow> world \<Rightarrow> jsval \<Rightarrow> jsval \<Rightarrow> jsval \<Rightarrow> jsval \<Rightarrow> (error + store_result) \<times> world" where
  "storePattern env w category memoryType0 content metadata =
     (let memoryType = (if memoryType0 = Undefined then JStr (utf16 ''semantic'') else memoryType0);
          w1 = issue [EmbedCall content] w
      in case generateEmbedding env content of
           None \<Rightarrow> (Inl EmbeddingError, w1)
         | Some embedding \<Rightarrow>
        (case hashCode env content of
           Inl e \<Rightarrow> (Inl e, w1)
         | Inr h \<Rightarrow>
        (let patternId = patternId_of env memoryType category h
         in case enrichedMetadata env (clock w) metadata of
           Inl e \<Rightarrow> (Inl e, w1)
         | Inr enriched \<Rightarrow>
        (let ttl = ttl_of memoryType;
             w2 = issue [RedisConnect] w1
         in if \<not> redis_up env then (Inl ConnectionError, w2)
            else
              (case (field_arg env category, field_arg env memoryType, field_arg env content) of
                 (Some c, Some m, Some t) \<Rightarrow>
                   (let w3 = issue [RedisHSet patternId]
                               (w2\<lparr>store := redis_hset (store w2) patternId
                                      \<lparr>h_category = Some c, h_memory_type = Some m,
                                       h_content = Some t, h_metadata = Some (json_rt enriched),
                                       h_embedding = Some embedding\<rparr>\<rparr>);
                        w4 = (if truthy ttl
                              then issue [RedisExpire patternId ttl]
                                     (w3\<lparr>expiry := (expiry w3)(patternId \<mapsto> ttl)\<rparr>)
                              else w3)
                    in (Inr \<lparr>pattern_id = patternId, memory_type = memoryType,
                             ttl_seconds = ttl, status = utf16 ''stored''\<rparr>,
                        issue [RedisQuit] w4))
               | _ \<Rightarrow> (Inl ClientError, issue [RedisQuit] w2))))))"

subsection \<open>searchPatterns\<close>

record pattern =
  p_pattern_id :: jsstring
  p_category :: jsval
  p_memory_type :: jsval
  p_content :: jsval
  p_metadata :: jsval

record search_result =
  results :: "pattern list"
  query :: jsval
  filters :: "jsval \<times> jsval"
  count :: nat

text \<open>
  What the loop over the returned fields does with the metadata field: parse it, and
  when both \<^verbatim>\<open>metadata.confidence\<close> and \<^verbatim>\<open>metadata.last_validated\<close> are truthy set
  \<^verbatim>\<open>confidence_current\<close> and then \<^verbatim>\<open>confidence_original\<close> on the parsed object. Only an
  object can have a truthy \<^verbatim>\<open>confidence\<close> here; the module is in strict mode, where
  setting a property on a primitive raises.
\<close>

definition decorate :: "env \<Rightarrow> real \<Rightarrow> jsval \<Rightarrow> error + jsval" where
  "decorate env now metadata =
     (case js_get metadata (utf16 ''confidence'') of
        Inl e \<Rightarrow> Inl e
      | Inr confidence \<Rightarrow>
          if \<not> truthy confidence then Inr metadata
          else
            (case js_get metadata (utf16 ''last_validated'') of
               Inl e \<Rightarrow> Inl e
             | Inr last_validated \<Rightarrow>
                 if \<not> truthy last_validated then Inr metadata
                 else
                   (case metadata of
                      JObj kvs \<Rightarrow>
                        Inr (JObj (obj_set
                              (obj_set kvs (utf16 ''confidence_current'')
                                 (calculateConfidenceDecay env now confidence last_validated))
                              (utf16 ''confidence_original'') confidence))
                    | _ \<Rightarrow> Inl TypeError)))"

definition opt_str :: "jsstring option \<Rightarrow> jsval" where
  "opt_str x = (case x of None \<Rightarrow> Undefined | Some s \<Rightarrow> JStr s)"

text \<open>One document of the reply: its key and the fields among the four returned ones that it has.\<close>

definition parse_doc :: "env \<Rightarrow> real \<Rightarrow> jsstring \<times> hash_rec \<Rightarrow> error + pattern" where
  "parse_doc env now doc =
     (case (case h_metadata (snd doc) of
              None \<Rightarrow> Inr Undefined
            | Some md \<Rightarrow> decorate env now md) of
        Inl e \<Rightarrow> Inl e
      | Inr md \<Rightarrow>
          Inr \<lparr>p_pattern_id = fst doc,
               p_category = opt_str (h_category (snd doc)),
               p_memory_type = opt_str (h_memory_type (snd doc)),
               p_content = opt_str (h_content (snd doc)),
               p_metadata = md\<rparr>)"

fun parse_results :: "env \<Rightarrow> real \<Rightarrow> (jsstring \<times> hash_rec) list \<Rightarrow> error + pattern list" where
  "parse_results env now [] = Inr []"
| "parse_results env now (doc # docs) =
     (case parse_doc env now doc of
        Inl e \<Rightarrow> Inl e
      | Inr p \<Rightarrow>
          (case parse_results env now docs of
             Inl e \<Rightarrow> Inl e
           | Inr ps \<Rightarrow> Inr (p # ps)))"

text \<open>
  The vector index is outside the source; the server creates it at startup
  (\<^verbatim>\<open>ensureVectorIndex\<close>), and a search is modelled with the index in place. Its
  contract as the code uses it: a tag
  filter keeps the documents whose field equals the given text; the index reads the
  number of results in the text that the template literal puts after \<^verbatim>\<open>KNN\<close> (its
  \<open>knn_count\<close>, which refuses a text it cannot read); and the reply holds that many
  documents, the first in the index's ranking of the filtered ones.
\<close>

definition tag_filter :: "env \<Rightarrow> jsval \<Rightarrow> jsstring option \<Rightarrow> bool" where
  "tag_filter env wanted field = (if truthy wanted then field = Some (to_string env wanted) else True)"

definition ft_search ::
  "env \<Rightarrow> (jsstring \<times> hash_rec) list \<Rightarrow> embedding \<Rightarrow> nat \<Rightarrow> jsval \<Rightarrow> jsval \<Rightarrow> (jsstring \<times> hash_rec) list" where
  "ft_search env st vec n category memoryType =
     take n (knn_rank env vec
       (filter (\<lambda>doc. tag_filter env category (h_category (snd doc))
                    \<and> tag_filter env memoryType (h_memory_type (snd doc))) st))"

definition searchPatterns ::
  "env \<Rightarrow> world \<Rightarrow> jsval \<Rightarrow> jsval \<Rightarrow> jsval \<Rightarrow> jsval \<Rightarrow> (error + search_result) \<times> world" where
  "searchPatterns env w query0 k0 category0 memoryType0 =
     (let k = (if k0 = Undefined then JNum 5 else k0);
          category = (if category0 = Undefined then JNull else category0);
          memoryType = (if memoryType0 = Undefined then JNull else memoryType0);
          w1 = issue [EmbedCall query0] w
      in case generateEmbedding env query0 of
           None \<Rightarrow> (Inl EmbeddingError, w1)
         | Some queryEmbedding \<Rightarrow>
        (let w2 = issue [RedisConnect] w1
         in if \<not> redis_up env then (Inl ConnectionError, w2)
            else
              (let w3 = issue [RedisSearch, RedisQuit] w2
               in case knn_count env (to_string env k) of
                    None \<Rightarrow> (Inl IndexError, w3)
                  | Some n \<Rightarrow>
                      (case parse_results env (clock w)
                              (ft_search env (store w) queryEmbedding n category memoryType) of
                         Inl e \<Rightarrow> (Inl e, w3)
                       | Inr patterns \<Rightarrow>
                           (Inr \<lparr>results = patterns, query = query0,
                                 filters = (category, memoryType),
                                 count = length patterns\<rparr>, w3)))))"

subsection \<open>consolidateMemories\<close>

record candidate =
  c_pattern_id :: jsstring
  c_category :: jsval
  c_content :: jsstring
  c_evidence_count :: jsval
  c_confidence :: jsval
  c_ready_for_export :: jsval

record report =
  r_dry_run :: bool
  r_promotion_type :: jsval
  e2s_candidates :: "candidate list"
  e2s_promoted :: nat
  s2c_candidates :: "candidate list"
  s2c_graduated :: nat

text \<open>\<^verbatim>\<open>pattern.content.substring(0, 100) + "..."\<close>: only a string has \<^verbatim>\<open>substring\<close>.\<close>

definition preview :: "jsval \<Rightarrow> error + jsstring" where
  "preview content = (case content of JStr s \<Rightarrow> Inr (take 100 s @ utf16 ''...'') | _ \<Rightarrow> Inl TypeError)"

text \<open>\<^verbatim>\<open>pattern.metadata?.evidence_count || 0\<close>.\<close>

definition evidenceCount_of :: "pattern \<Rightarrow> jsval" where
  "evidenceCount_of p = js_or (js_get_opt (p_metadata p) (utf16 ''evidence_count'')) (JNum 0)"

text \<open>The candidate of phase 1; its \<^verbatim>\<open>confidence\<close> is read without optional chaining.\<close>

definition episodic_candidate :: "pattern \<Rightarrow> error + candidate" where
  "episodic_candidate p =
     (case preview (p_content p) of
        Inl e \<Rightarrow> Inl e
      | Inr c \<Rightarrow>
          (case js_get (p_metadata p) (utf16 ''confidence'') of
             Inl e \<Rightarrow> Inl e
           | Inr conf \<Rightarrow>
               Inr \<lparr>c_pattern_id = p_pattern_id p, c_category = p_category p, c_content = c,
                    c_evidence_count = evidenceCount_of p, c_confidence = conf,
                    c_ready_for_export = Undefined\<rparr>))"

text \<open>The metadata handed to \<^verbatim>\<open>storePattern\<close> for the semantic version.\<close>

definition promoted_metadata :: "env \<Rightarrow> real \<Rightarrow> pattern \<Rightarrow> jsval" where
  "promoted_metadata env now p =
     JObj (obj_set
            (obj_set
              (obj_set (spread (p_metadata p)) (utf16 ''promoted_from'') (JStr (utf16 ''episodic'')))
              (utf16 ''promoted_at'') (JStr (toISOString env now)))
            (utf16 ''original_pattern_id'') (JStr (p_pattern_id p)))"

text \<open>
  The loop of phase 1 over the enumerated episodic patterns, with the candidates and
  the \<^verbatim>\<open>promoted\<close> counter so far. An exception in the loop ends the whole operation.
\<close>

fun promote_loop ::
  "env \<Rightarrow> bool \<Rightarrow> jsval \<Rightarrow> pattern list \<Rightarrow> candidate list \<Rightarrow> nat \<Rightarrow> world
     \<Rightarrow> (error + candidate list \<times> nat) \<times> world" where
  "promote_loop env dryRun minEvidence [] cands promoted w = (Inr (cands, promoted), w)"
| "promote_loop env dryRun minEvidence (p # ps) cands promoted w =
     (if js_ge env (evidenceCount_of p) minEvidence
      then
        (case episodic_candidate p of
           Inl e \<Rightarrow> (Inl e, w)
         | Inr c \<Rightarrow>
             if \<not> dryRun
             then
               (case storePattern env w (p_category p) (JStr (utf16 ''semantic'')) (p_content p)
                       (promoted_metadata env (clock w) p) of
                  (Inl e, w') \<Rightarrow> (Inl e, w')
                | (Inr r, w') \<Rightarrow>
                    promote_loop env dryRun minEvidence ps (cands @ [c]) (promoted + 1) w')
             else promote_loop env dryRun minEvidence ps (cands @ [c]) promoted w)
      else promote_loop env dryRun minEvidence ps cands promoted w)"

text \<open>
  Phase 2: \<^verbatim>\<open>pattern.metadata?.confidence || 0\<close>, the two fixed thresholds, and a
  counter instead of a write.
\<close>

definition confidence_of :: "pattern \<Rightarrow> jsval" where
  "confidence_of p = js_or (js_get_opt (p_metadata p) (utf16 ''confidence'')) (JNum 0)"

definition canonical_candidate :: "pattern \<Rightarrow> error + candidate" where
  "canonical_candidate p =
     (case preview (p_content p) of
        Inl e \<Rightarrow> Inl e
      | Inr c \<Rightarrow>
          Inr \<lparr>c_pattern_id = p_pattern_id p, c_category = p_category p, c_content = c,
               c_evidence_count = evidenceCount_of p, c_confidence = confidence_of p,
               c_ready_for_export = JBool True\<rparr>)"

fun graduate_loop ::
  "env \<Rightarrow> bool \<Rightarrow> pattern list \<Rightarrow> candidate list \<Rightarrow> nat \<Rightarrow> error + candidate list \<times> nat" where
  "graduate_loop env dryRun [] cands graduated = Inr (cands, graduated)"
| "graduate_loop env dryRun (p # ps) cands graduated =
     (if js_ge env (evidenceCount_of p) (JNum SEMANTIC_TO_LONGTERM)
         \<and> js_ge env (confidence_of p) (JNum MIN_CONFIDENCE)
      then
        (case canonical_candidate p of
           Inl e \<Rightarrow> Inl e
         | Inr c \<Rightarrow>
             graduate_loop env dryRun ps (cands @ [c]) (if \<not> dryRun then graduated + 1 else graduated))
      else graduate_loop env dryRun ps cands graduated)"

definition phase1 :: "env \<Rightarrow> world \<Rightarrow> bool \<Rightarrow> jsval \<Rightarrow> jsval \<Rightarrow> (error + candidate list \<times> nat) \<times> world" where
  "phase1 env w dryRun promotionType minEvidence =
     (if promotionType = JStr (utf16 ''episodic_to_semantic'') \<or> promotionType = JStr (utf16 ''both'')
      then
        (case searchPatterns env w (JStr (utf16 ''*'')) (JNum 1000) JNull (JStr (utf16 ''episodic'')) of
           (Inl e, w') \<Rightarrow> (Inl e, w')
         | (Inr episodicPatterns, w') \<Rightarrow>
             promote_loop env dryRun minEvidence (results episodicPatterns) [] 0 w')
      else (Inr ([], 0), w))"

definition phase2 :: "env \<Rightarrow> world \<Rightarrow> bool \<Rightarrow> jsval \<Rightarrow> (error + candidate list \<times> nat) \<times> world" where
  "phase2 env w dryRun promotionType =
     (if promotionType = JStr (utf16 ''semantic_to_canonical'') \<or> promotionType = JStr (utf16 ''both'')
      then
        (case searchPatterns env w (JStr (utf16 ''*'')) (JNum 1000) JNull (JStr (utf16 ''semantic'')) of
           (Inl e, w') \<Rightarrow> (Inl e, w')
         | (Inr semanticPatterns, w') \<Rightarrow>
             (case graduate_loop env dryRun (results semanticPatterns) [] 0 of
                Inl e \<Rightarrow> (Inl e, w')
              | Inr res \<Rightarrow> (Inr res, w')))
      else (Inr ([], 0), w))"

text \<open>
  \<^verbatim>\<open>consolidateMemories\<close>. The handler always passes a boolean for \<^verbatim>\<open>dryRun\<close>; the
  defaults of the other two parameters apply to \<^verbatim>\<open>undefined\<close>.
\<close>

definition consolidateMemories ::
  "env \<Rightarrow> world \<Rightarrow> bool \<Rightarrow> jsval \<Rightarrow> jsval \<Rightarrow> (error + report) \<times> world" where
  "consolidateMemories env w dryRun promotionType0 minEvidence0 =
     (let promotionType =
            (if promotionType0 = Undefined then JStr (utf16 ''episodic_to_semantic'') else promotionType0);
          minEvidence = (if minEvidence0 = Undefined then JNum 5 else minEvidence0)
      in case phase1 env w dryRun promotionType minEvidence of
           (Inl e, w1) \<Rightarrow> (Inl e, w1)
         | (Inr (cands1, promoted), w1) \<Rightarrow>
             (case phase2 env w1 dryRun promotionType of
                (Inl e, w2) \<Rightarrow> (Inl e, w2)
              | (Inr (cands2, graduated), w2) \<Rightarrow>
                  (Inr \<lparr>r_dry_run = dryRun, r_promotion_type = promotionType,
                        e2s_candidates = cands1, e2s_promoted = promoted,
                        s2c_candidates = cands2, s2c_graduated = graduated\<rparr>, w2)))"

text \<open>The \<^verbatim>\<open>summary\<close> of the returned report: the two candidate counts and the promoted count.\<close>

definition summary :: "report \<Rightarrow> nat \<times> nat \<times> nat" where
  "summary r = (length (e2s_candidates r), e2s_promoted r, length (s2c_candidates r))"

subsection \<open>setReminder and checkReminders\<close>

text \<open>
  The reminders use the client that is connected at startup. A key holds a hash; the
  store returns its fields in the order they were first written.
\<close>

fun put :: "('k \<times> 'v) list \<Rightarrow> 'k \<Rightarrow> 'v \<Rightarrow> ('k \<times> 'v) list" where
  "put [] k v = [(k, v)]"
| "put ((k', v') # kvs) k v = (if k' = k then (k, v) # kvs else (k', v') # put kvs k v)"

definition fields_of :: "('k \<times> ('f \<times> 'v) list) list \<Rightarrow> 'k \<Rightarrow> ('f \<times> 'v) list" where
  "fields_of hs k = (case map_of hs k of None \<Rightarrow> [] | Some fs \<Rightarrow> fs)"

record reminder_result =
  rs_status :: jsstring
  rs_reminder_id :: jsstring

text \<open>
  \<^verbatim>\<open>setReminder\<close>: the key from the task type, the id from \<^verbatim>\<open>Date.now()\<close>, the record,
  and one \<^verbatim>\<open>hSet\<close> of its JSON text.
\<close>

definition setReminder ::
  "env \<Rightarrow> world \<Rightarrow> jsval \<Rightarrow> jsval \<Rightarrow> jsval \<Rightarrow> (error + reminder_result) \<times> world" where
  "setReminder env w taskType reminder priority0 =
     (let priority = (if priority0 = Undefined then JStr (utf16 ''info'') else priority0);
          reminderKey = utf16 ''reminder:'' @ to_string env taskType;
          reminderId = utf16 ''r_'' @ to_string env (JNum (clock w));
          reminderData =
            JObj [(utf16 ''reminder_id'', JStr reminderId),
                  (utf16 ''content'', reminder),
                  (utf16 ''priority'', priority),
                  (utf16 ''created_at'', JStr (toISOString env (clock w)))];
          w1 = issue [RedisHSet reminderKey] w
      in if \<not> redis_up env then (Inl ConnectionError, w1)
         else
           (Inr \<lparr>rs_status = utf16 ''ok'', rs_reminder_id = reminderId\<rparr>,
            w1\<lparr>reminders :=
                 put (reminders w1) reminderKey
                   (put (fields_of (reminders w1) reminderKey) reminderId
                      (spread (json_rt reminderData)))\<rparr>))"

text \<open>
  \<^verbatim>\<open>priorityOrder[a.priority]\<close>: the rank of a known priority, \<^verbatim>\<open>undefined\<close> for any
  other, which makes the comparator's difference NaN.
\<close>

definition priorityOrder :: "(jsstring \<times> nat) list" where
  "priorityOrder = [(utf16 ''critical'', 0), (utf16 ''important'', 1), (utf16 ''info'', 2)]"

definition priority_rank :: "env \<Rightarrow> jsval \<Rightarrow> nat option" where
  "priority_rank env a = map_of priorityOrder (to_string env (js_get_opt a (utf16 ''priority'')))"

text \<open>
  \<^verbatim>\<open>reminders.sort(...)\<close>: the sort is stable, so with every priority known it is the
  stable sort by rank; otherwise the comparator is not an ordering and the result is
  the runtime's.
\<close>

definition sort_reminders :: "env \<Rightarrow> jsval list \<Rightarrow> jsval list" where
  "sort_reminders env rs =
     (if list_all (\<lambda>a. priority_rank env a \<noteq> None) rs
      then sort_key (\<lambda>a. case priority_rank env a of None \<Rightarrow> 0 | Some n \<Rightarrow> n) rs
      else runtime_sort env rs)"

record reminder_list =
  rl_task_type :: jsval
  rl_reminders :: "jsval list"
  rl_count :: nat

definition checkReminders :: "env \<Rightarrow> world \<Rightarrow> jsval \<Rightarrow> (error + reminder_list) \<times> world" where
  "checkReminders env w taskType =
     (let reminderKey = utf16 ''reminder:'' @ to_string env taskType;
          w1 = issue [RedisHGetAll reminderKey] w
      in if \<not> redis_up env then (Inl ConnectionError, w1)
         else
           (let data = fields_of (reminders w) reminderKey;
                rems = sort_reminders env (map (\<lambda>field. JObj (snd field)) data)
            in (Inr \<lparr>rl_task_type = taskType, rl_reminders = rems, rl_count = length rems\<rparr>, w1)))"

subsection \<open>healthCheck\<close>

text \<open>
  The three checks, each in its own \<^verbatim>\<open>try\<close>: the ping, an embedding of \<^verbatim>\<open>"test"\<close>,
  and the lookup of the index. The text of an error message is not kept.
\<close>

record health =
  redis_connected :: bool
  openai_connected :: bool
  vector_index_exists :: bool
  healthy :: bool

definition healthCheck :: "env \<Rightarrow> world \<Rightarrow> (error + health) \<times> world" where
  "healthCheck env w =
     (Inr \<lparr>redis_connected = redis_up env,
           openai_connected = (generateEmbedding env (JStr (utf16 ''test'')) \<noteq> None),
           vector_index_exists = (redis_up env \<and> index_present env),
           healthy = (redis_up env \<and> generateEmbedding env (JStr (utf16 ''test'')) \<noteq> None)\<rparr>,
      issue [RedisPing, EmbedCall (JStr (utf16 ''test'')), RedisInfo] w)"

section \<open>The request handler\<close>

text \<open>
  The \<^verbatim>\<open>CallToolRequestSchema\<close> handler, first the cases of the three pattern tools.
  The handler receives the arguments object as the caller sent it; reading a property
  of missing arguments raises, and the \<^verbatim>\<open>catch\<close> turns every exception into the error
  result \<open>Inl\<close>.
\<close>

definition call_store_pattern :: "env \<Rightarrow> world \<Rightarrow> jsval \<Rightarrow> (error + store_result) \<times> world" where
  "call_store_pattern env w args =
     (if args = Undefined \<or> args = JNull then (Inl TypeError, w)
      else storePattern env w
             (js_get_opt args (utf16 ''category''))
             (js_or (js_get_opt args (utf16 ''memory_type'')) (JStr (utf16 ''semantic'')))
             (js_get_opt args (utf16 ''content''))
             (js_get_opt args (utf16 ''metadata'')))"

definition call_search_patterns :: "env \<Rightarrow> world \<Rightarrow> jsval \<Rightarrow> (error + search_result) \<times> world" where
  "call_search_patterns env w args =
     (if args = Undefined \<or> args = JNull then (Inl TypeError, w)
      else searchPatterns env w
             (js_get_opt args (utf16 ''query''))
             (js_get_opt args (utf16 ''k''))
             (js_get_opt args (utf16 ''category''))
             (js_get_opt args (utf16 ''memory_type'')))"

definition call_consolidate_memories :: "env \<Rightarrow> world \<Rightarrow> jsval \<Rightarrow> (error + report) \<times> world" where
  "call_consolidate_memories env w args =
     (if args = Undefined \<or> args = JNull then (Inl TypeError, w)
      else consolidateMemories env w
             (js_get_opt args (utf16 ''dry_run'') \<noteq> JBool False)
             (js_or (js_get_opt args (utf16 ''promotion_type'')) (JStr (utf16 ''episodic_to_semantic'')))
             (js_or (js_get_opt args (utf16 ''min_evidence'')) (JNum 5)))"

text \<open>The \<^verbatim>\<open>switch\<close> on the tool name, with its cases in the order of the source.\<close>

datatype tool_result =
    Stored store_result
  | Found search_result
  | ReminderSet reminder_result
  | Reminders reminder_list
  | Health health
  | Consolidated report

definition returning :: "('a \<Rightarrow> tool_result) \<Rightarrow> (error + 'a) \<times> world \<Rightarrow> (error + tool_result) \<times> world" where
  "returning f res = (case fst res of Inl e \<Rightarrow> (Inl e, snd res) | Inr r \<Rightarrow> (Inr (f r), snd res))"

definition call_tool :: "env \<Rightarrow> world \<Rightarrow> jsstring \<Rightarrow> jsval \<Rightarrow> (error + tool_result) \<times> world" where
  "call_tool env w name args =
     (if name = utf16 ''store_pattern'' then returning Stored (call_store_pattern env w args)
      else if name = utf16 ''search_patterns'' then returning Found (call_search_patterns env w args)
      else if name = utf16 ''set_reminder'' then
        (if args = Undefined \<or> args = JNull then (Inl TypeError, w)
         else returning ReminderSet
                (setReminder env w
                   (js_get_opt args (utf16 ''task_type''))
                   (js_get_opt args (utf16 ''reminder''))
                   (js_get_opt args (utf16 ''priority''))))
      else if name = utf16 ''check_reminders'' then
        (if args = Undefined \<or> args = JNull then (Inl TypeError, w)
         else returning Reminders (checkReminders env w (js_get_opt args (utf16 ''task_type''))))
      else if name = utf16 ''health_check'' then returning Health (healthCheck env w)
      else if name = utf16 ''consolidate_memories'' then
        returning Consolidated (call_consolidate_memories env w args)
      else (Inl UnknownTool, w))"

section \<open>The specification's decay function\<close>

text \<open>
  The decay function in the words of the specification: the confidence unchanged when
  there is no validation time, otherwise the confidence times 0.95 to the number of
  elapsed 30-day months, clamped to the unit interval.
\<close>

definition decay_spec :: "real \<Rightarrow> real \<Rightarrow> real option \<Rightarrow> real" where
  "decay_spec now c last_validated =
     (case last_validated of
        None \<Rightarrow> c
      | Some t \<Rightarrow> max 0 (min 1 (c * (95 / 100) powr ((now - t) / (30 * (24 * 60 * 60 * 1000))))))"


section \<open>A concrete installation\<close>

text \<open>
  Collaborators for the worked examples: the embedding service accepts a string and
  refuses anything else, the store is reachable and its client refuses a field that is
  not a string, the index ranks documents in store order and reads a count written in
  decimal digits, \<^verbatim>\<open>Number\<close> reads a text of decimal digits (the empty text as 0), and
  the clock stands at the epoch, whose ISO text parses back to 0. A second date is known
  to the parser: 10 July 3147, which is 14336 months of 30 days after the epoch.
\<close>

text \<open>The number written by a text of decimal digits, if it is at least 1.\<close>

fun decimal_acc :: "nat \<Rightarrow> jsstring \<Rightarrow> nat option" where
  "decimal_acc acc [] = Some acc"
| "decimal_acc acc (c # cs) =
     (if 48 \<le> c \<and> c \<le> 57 then decimal_acc (10 * acc + (c - 48)) cs else None)"

definition decimal :: "jsstring \<Rightarrow> nat option" where
  "decimal s =
     (if s = [] then None
      else case decimal_acc 0 s of None \<Rightarrow> None | Some n \<Rightarrow> if 1 \<le> n then Some n else None)"

definition demo_env :: env where
  "demo_env =
     \<lparr>generateEmbedding = (\<lambda>v. case v of JStr s \<Rightarrow> Some [] | _ \<Rightarrow> None),
      redis_up = True,
      redis_arg = (\<lambda>v. None),
      knn_rank = (\<lambda>vec docs. docs),
      toISOString = (\<lambda>t. utf16 ''1970-01-01T00:00:00.000Z''),
      date_parse =
        (\<lambda>v. if v = JStr (utf16 ''1970-01-01T00:00:00.000Z'') then Some 0
             else if v = JStr (utf16 ''3147-07-10T00:00:00.000Z'') then Some 37158912000000
             else None),
      string_to_number = (\<lambda>s. map_option real (decimal_acc 0 s)),
      number_to_string = (\<lambda>r. []),
      knn_count = decimal,
      index_present = True,
      runtime_sort = (\<lambda>rs. rs)\<rparr>"

definition empty_world :: world where
  "empty_world = \<lparr>store = [], expiry = Map.empty, calls = [], clock = 0, reminders = []\<rparr>"

definition md0 :: jsval where
  "md0 = JObj [(utf16 ''confidence'', JNum (9 / 10)), (utf16 ''evidence_count'', JNum 7)]"

definition md1 :: jsval where
  "md1 = JObj [(utf16 ''confidence'', JNum (1 / 2)), (utf16 ''evidence_count'', JNum 1),
               (utf16 ''source'', JStr (utf16 ''research''))]"

definition demo_episodic_result :: store_result where
  "demo_episodic_result =
     \<lparr>pattern_id = utf16 ''pattern:episodic:solution:3105'', memory_type = JStr (utf16 ''episodic''),
      ttl_seconds = JNum 7776000, status = utf16 ''stored''\<rparr>"

definition demo_semantic_result :: store_result where
  "demo_semantic_result =
     \<lparr>pattern_id = utf16 ''pattern:semantic:solution:3105'', memory_type = JStr (utf16 ''semantic''),
      ttl_seconds = JNull, status = utf16 ''stored''\<rparr>"

definition demo_store_episodic :: "(error + store_result) \<times> world" where
  "demo_store_episodic =
     storePattern demo_env empty_world (JStr (utf16 ''solution'')) (JStr (utf16 ''episodic''))
       (JStr (utf16 ''ab'')) md0"

definition demo_store_semantic :: "(error + store_result) \<times> world" where
  "demo_store_semantic =
     storePattern demo_env empty_world (JStr (utf16 ''solution'')) (JStr (utf16 ''semantic''))
       (JStr (utf16 ''ab'')) md0"

definition demo_store_again :: "(error + store_result) \<times> world" where
  "demo_store_again =
     storePattern demo_env (snd demo_store_episodic) (JStr (utf16 ''solution'')) (JStr (utf16 ''episodic''))
       (JStr (utf16 ''ab'')) md1"

definition episodic_doc :: "string \<Rightarrow> jsval \<Rightarrow> jsstring \<times> hash_rec" where
  "episodic_doc name md =
     (utf16 ''pattern:episodic:solution:'' @ utf16 name,
      \<lparr>h_category = Some (utf16 ''solution''), h_memory_type = Some (utf16 ''episodic''),
       h_content = Some (utf16 name), h_metadata = Some md, h_embedding = Some []\<rparr>)"

text \<open>Three episodic patterns: evidence count 5, evidence count 4, and none recorded.\<close>

definition demo_world3 :: world where
  "demo_world3 =
     \<lparr>store =
        [episodic_doc ''5'' (JObj [(utf16 ''confidence'', JNum (9 / 10)), (utf16 ''evidence_count'', JNum 5),
                                  (utf16 ''last_validated'', JStr (utf16 ''1970-01-01T00:00:00.000Z''))]),
         episodic_doc ''4'' (JObj [(utf16 ''confidence'', JNum (9 / 10)), (utf16 ''evidence_count'', JNum 4),
                                  (utf16 ''last_validated'', JStr (utf16 ''1970-01-01T00:00:00.000Z''))]),
         episodic_doc ''0'' (JObj [(utf16 ''confidence'', JNum (9 / 10)),
                                  (utf16 ''last_validated'', JStr (utf16 ''1970-01-01T00:00:00.000Z''))])],
      expiry = Map.empty, calls = [], clock = 0, reminders = []\<rparr>"

text \<open>One episodic pattern that also meets the thresholds of phase 2.\<close>

definition demo_world_hot :: world where
  "demo_world_hot =
     \<lparr>store =
        [episodic_doc ''a'' (JObj [(utf16 ''confidence'', JNum (99 / 100)), (utf16 ''evidence_count'', JNum 25),
                                  (utf16 ''last_validated'', JStr (utf16 ''1970-01-01T00:00:00.000Z''))])],
      expiry = Map.empty, calls = [], clock = 0, reminders = []\<rparr>"

definition demo_enum3 :: "(error + search_result) \<times> world" where
  "demo_enum3 = searchPatterns demo_env demo_world3 (JStr (utf16 ''*'')) (JNum 1000) JNull (JStr (utf16 ''episodic''))"

definition demo_dry3 :: "(error + report) \<times> world" where
  "demo_dry3 = consolidateMemories demo_env demo_world3 True (JStr (utf16 ''episodic_to_semantic'')) (JNum 5)"

definition demo_wet3 :: "(error + report) \<times> world" where
  "demo_wet3 = consolidateMemories demo_env demo_world3 False (JStr (utf16 ''episodic_to_semantic'')) (JNum 5)"

text \<open>A pattern of confidence 0, and one of confidence 0.9 validated one 30-day month ago.\<close>

definition demo_world_zero :: world where
  "demo_world_zero =
     \<lparr>store =
        [episodic_doc ''z'' (JObj [(utf16 ''confidence'', JNum 0), (utf16 ''evidence_count'', JNum 1),
                                  (utf16 ''last_validated'', JStr (utf16 ''1970-01-01T00:00:00.000Z''))])],
      expiry = Map.empty, calls = [], clock = 2592000000, reminders = []\<rparr>"

definition demo_world_month :: world where
  "demo_world_month =
     \<lparr>store =
        [episodic_doc ''m'' (JObj [(utf16 ''confidence'', JNum (9 / 10)), (utf16 ''evidence_count'', JNum 1),
                                  (utf16 ''last_validated'', JStr (utf16 ''1970-01-01T00:00:00.000Z''))])],
      expiry = Map.empty, calls = [], clock = 2592000000, reminders = []\<rparr>"

definition demo_search_month :: "(error + search_result) \<times> world" where
  "demo_search_month =
     searchPatterns demo_env demo_world_month (JStr (utf16 ''q'')) (JStr (utf16 ''5'')) Undefined Undefined"




text \<open>
  \<^verbatim>\<open>store_pattern\<close> requests: one without metadata, one with the empty string as memory
  type, and one with a memory type outside the enum.
\<close>

definition demo_args_no_metadata :: jsval where
  "demo_args_no_metadata =
     JObj [(utf16 ''category'', JStr (utf16 ''solution'')), (utf16 ''content'', JStr (utf16 ''ab''))]"

definition demo_args_empty_type :: jsval where
  "demo_args_empty_type =
     JObj [(utf16 ''category'', JStr (utf16 ''solution'')), (utf16 ''memory_type'', JStr []),
           (utf16 ''content'', JStr (utf16 ''ab'')), (utf16 ''metadata'', md0)]"

definition demo_args_bogus_type :: jsval where
  "demo_args_bogus_type =
     JObj [(utf16 ''category'', JStr (utf16 ''solution'')), (utf16 ''memory_type'', JStr (utf16 ''bogus'')),
           (utf16 ''content'', JStr (utf16 ''ab'')), (utf16 ''metadata'', md0)]"

section \<open>Vocabulary of the properties\<close>

text \<open>The names the handler's \<^verbatim>\<open>switch\<close> knows.\<close>

definition tool_names :: "jsstring list" where
  "tool_names =
     [utf16 ''store_pattern'', utf16 ''search_patterns'', utf16 ''set_reminder'',
      utf16 ''check_reminders'', utf16 ''health_check'', utf16 ''consolidate_memories'']"

text \<open>The ids of the candidates of both phases in a returned report.\<close>

definition candidate_ids :: "(error + report) \<times> world \<Rightarrow> (jsstring list \<times> jsstring list) option" where
  "candidate_ids res =
     (case fst res of
        Inl e \<Rightarrow> None
      | Inr r \<Rightarrow> Some (map c_pattern_id (e2s_candidates r), map c_pattern_id (s2c_candidates r)))"

text \<open>
  The evidence count of an enumerated pattern as a number, 0 when the metadata has
  none, and the patterns whose evidence count is a number or missing.
\<close>

definition evidence_typed :: "pattern \<Rightarrow> bool" where
  "evidence_typed p =
     (case js_get_opt (p_metadata p) (utf16 ''evidence_count'') of
        JNum n \<Rightarrow> True | Undefined \<Rightarrow> True | _ \<Rightarrow> False)"

definition evidence_number :: "pattern \<Rightarrow> real" where
  "evidence_number p =
     (case js_get_opt (p_metadata p) (utf16 ''evidence_count'') of JNum n \<Rightarrow> n | _ \<Rightarrow> 0)"

text \<open>The calls that write to the key-value store.\<close>

definition is_write :: "call \<Rightarrow> bool" where
  "is_write c = (case c of RedisHSet k \<Rightarrow> True | RedisExpire k t \<Rightarrow> True | _ \<Rightarrow> False)"

text \<open>
  What a search hit exposes of its stored document: when the stored metadata is an
  object whose \<^verbatim>\<open>confidence\<close> and \<^verbatim>\<open>last_validated\<close> are both truthy, the stored
  confidence as \<^verbatim>\<open>confidence_original\<close> and its decay as \<^verbatim>\<open>confidence_current\<close>;
  otherwise the stored object as it is.
\<close>

definition hit_exposes :: "env \<Rightarrow> real \<Rightarrow> jsstring \<times> hash_rec \<Rightarrow> pattern \<Rightarrow> bool" where
  "hit_exposes env now doc p =
     (p_pattern_id p = fst doc \<and>
      (case h_metadata (snd doc) of
         Some (JObj kvs) \<Rightarrow>
           if truthy (obj_get kvs (utf16 ''confidence'')) \<and> truthy (obj_get kvs (utf16 ''last_validated''))
           then js_get (p_metadata p) (utf16 ''confidence_original'') = Inr (obj_get kvs (utf16 ''confidence''))
              \<and> js_get (p_metadata p) (utf16 ''confidence_current'')
                   = Inr (calculateConfidenceDecay env now (obj_get kvs (utf16 ''confidence''))
                            (obj_get kvs (utf16 ''last_validated'')))
              \<and> js_get (p_metadata p) (utf16 ''confidence'') = Inr (obj_get kvs (utf16 ''confidence''))
           else p_metadata p = JObj kvs
       | _ \<Rightarrow> True))"

text \<open>The confidence, original confidence and current confidence of each hit of a returned search.\<close>

definition exposed :: "(error + search_result) \<times> world \<Rightarrow> (jsval \<times> jsval \<times> jsval) list option" where
  "exposed res =
     (case fst res of
        Inl e \<Rightarrow> None
      | Inr sr \<Rightarrow>
          Some (map (\<lambda>p. (js_get_opt (p_metadata p) (utf16 ''confidence''),
                          js_get_opt (p_metadata p) (utf16 ''confidence_original''),
                          js_get_opt (p_metadata p) (utf16 ''confidence_current''))) (results sr)))"

text \<open>A property of the metadata stored under a key, and whether the stored metadata has it.\<close>

definition stored_field :: "world \<Rightarrow> jsstring \<Rightarrow> jsstring \<Rightarrow> jsval" where
  "stored_field w key k =
     (case map_of (store w) key of
        None \<Rightarrow> Undefined
      | Some h \<Rightarrow> (case h_metadata h of None \<Rightarrow> Undefined | Some md \<Rightarrow> js_get_opt md k))"

definition stored_has_field :: "world \<Rightarrow> jsstring \<Rightarrow> jsstring \<Rightarrow> bool" where
  "stored_has_field w key k =
     (case map_of (store w) key of
        None \<Rightarrow> False
      | Some h \<Rightarrow> (case h_metadata h of Some (JObj md) \<Rightarrow> has_key md k | _ \<Rightarrow> False))"

section \<open>Properties\<close>

subsection \<open>Basic facts\<close>

lemmas store_evals = utf16_def hash_string_def hash_step_def to_int32_def digest_def show_nat.simps
  storePattern_def demo_env_def empty_world_def md0_def md1_def issue_def hashCode_def patternId_of_def
  enrichedMetadata_def ttl_of_def MEMORY_TYPES_def field_arg_def js_or_def obj_get_def Let_def

lemma to_number_JNum: "to_number env (JNum c) = Some c"
  by (simp add: to_number_def to_primitive_def)

lemma ttl_of_episodic: "ttl_of (JStr (utf16 ''episodic'')) = JNum 7776000"
  by (simp add: ttl_of_def MEMORY_TYPES_def utf16_def)

lemma ttl_of_semantic: "ttl_of (JStr (utf16 ''semantic'')) = JNull"
  by (simp add: ttl_of_def MEMORY_TYPES_def utf16_def)

lemma ttl_of_procedural: "ttl_of (JStr (utf16 ''procedural'')) = JNull"
  by (simp add: ttl_of_def MEMORY_TYPES_def utf16_def)

lemma digest_bound: "digest h < 100000000"
  by (simp add: digest_def)

text \<open>What a returning \<^verbatim>\<open>storePattern\<close> has done.\<close>

lemma storePattern_Inr:
  assumes "storePattern env w category memoryType0 content metadata = (Inr r, w')"
  shows "\<exists>emb h enriched c m t.
           generateEmbedding env content = Some emb
         \<and> hashCode env content = Inr h
         \<and> enrichedMetadata env (clock w) metadata = Inr enriched
         \<and> redis_up env
         \<and> field_arg env category = Some c
         \<and> field_arg env (if memoryType0 = Undefined then JStr (utf16 ''semantic'') else memoryType0) = Some m
         \<and> field_arg env content = Some t
         \<and> pattern_id r = patternId_of env (if memoryType0 = Undefined then JStr (utf16 ''semantic'') else memoryType0) category h
         \<and> memory_type r = (if memoryType0 = Undefined then JStr (utf16 ''semantic'') else memoryType0)
         \<and> ttl_seconds r = ttl_of (memory_type r)
         \<and> status r = utf16 ''stored''
         \<and> store w' = redis_hset (store w) (pattern_id r)
              \<lparr>h_category = Some c, h_memory_type = Some m, h_content = Some t,
               h_metadata = Some (json_rt enriched), h_embedding = Some emb\<rparr>
         \<and> expiry w' = (if truthy (ttl_seconds r) then (expiry w)(pattern_id r \<mapsto> ttl_seconds r) else expiry w)
         \<and> calls w' = calls w @ [EmbedCall content, RedisConnect, RedisHSet (pattern_id r)]
              @ (if truthy (ttl_seconds r) then [RedisExpire (pattern_id r) (ttl_seconds r)] else [])
              @ [RedisQuit]
         \<and> clock w' = clock w"
  using assms
  by (auto simp: storePattern_def Let_def issue_def split: option.splits sum.splits if_splits)

lemma demo_store_episodic_fst: "fst demo_store_episodic = Inr demo_episodic_result"
  by (simp add: demo_store_episodic_def demo_episodic_result_def store_evals)

lemma demo_store_semantic_fst: "fst demo_store_semantic = Inr demo_semantic_result"
  by (simp add: demo_store_semantic_def demo_semantic_result_def store_evals)

lemma demo_store_again_fst: "fst demo_store_again = Inr demo_episodic_result"
  by (simp add: demo_store_again_def demo_episodic_result_def store_evals)

lemma demo_store_episodic_eq:
  "storePattern demo_env empty_world (JStr (utf16 ''solution'')) (JStr (utf16 ''episodic''))
     (JStr (utf16 ''ab'')) md0 = (Inr demo_episodic_result, snd demo_store_episodic)"
  using demo_store_episodic_fst by (simp add: demo_store_episodic_def prod_eq_iff)

subsection \<open>The decay function\<close>

lemma DBL_MAX_ge_1: "1 \<le> DBL_MAX"
proof -
  have a: "(1::real) \<le> 2 - 1 / 2 ^ 52" by simp
  have b: "(1::real) \<le> 2 ^ 1023" by (rule one_le_power) simp
  have "(1::real) * 1 \<le> (2 - 1 / 2 ^ 52) * 2 ^ 1023"
    by (rule mult_mono [OF a b]) simp_all
  then show ?thesis by (simp add: DBL_MAX_def)
qed


text \<open>A validation time that is not in the future gives a power of at most 1.\<close>

lemma Math_pow_past:
  assumes "0 < b" and "b \<le> 1" and "0 \<le> x"
  shows "Math_pow b x = Fin (b powr x)"
proof -
  have "b powr x \<le> 1" using assms by (intro powr_le1) simp_all
  with DBL_MAX_ge_1 show ?thesis by (simp add: Math_pow_def)
qed




lemma clamp_times_Fin: "clamp (times c (Fin p)) = JNum (max 0 (min 1 (c * p)))"
  using DBL_MAX_ge_1 by (auto simp: times.simps)

text \<open>
  Where the power does not overflow, the code computes the formula of the
  specification.
\<close>

lemma decay_agrees_in_range:
  assumes "truthy lv" and "date_parse env lv = Some t"
      and "\<not> DBL_MAX < (95 / 100) powr ((now - t) / (1000 * 60 * 60 * 24 * 30))"
  shows "calculateConfidenceDecay env now (JNum c) lv = JNum (decay_spec now c (Some t))"
  using assms
  by (simp add: calculateConfidenceDecay_def decay_spec_def to_number_JNum Math_pow_def
        clamp_times_Fin)





subsection \<open>Storing a pattern\<close>

text \<open>
  C3. A \<^verbatim>\<open>storePattern\<close> call that returns, made with memory type \<^verbatim>\<open>episodic\<close>,
  returns \<^verbatim>\<open>ttl_seconds\<close> 7776000 and has set an expiration of 7776000 seconds on the
  stored key; made with \<^verbatim>\<open>semantic\<close> or \<^verbatim>\<open>procedural\<close>, it returns \<^verbatim>\<open>ttl_seconds\<close>
  \<^verbatim>\<open>null\<close>, issues no \<^verbatim>\<open>expire\<close> and leaves every expiration as it was.
\<close>

theorem tier_ttl_law:
  assumes "storePattern env w category memoryType content metadata = (Inr r, w')"
  shows "(memoryType = JStr (utf16 ''episodic'') \<longrightarrow>
            ttl_seconds r = JNum 7776000
          \<and> expiry w' (pattern_id r) = Some (JNum 7776000)
          \<and> calls w' = calls w @ [EmbedCall content, RedisConnect, RedisHSet (pattern_id r),
                                   RedisExpire (pattern_id r) (JNum 7776000), RedisQuit])
       \<and> (memoryType = JStr (utf16 ''semantic'') \<or> memoryType = JStr (utf16 ''procedural'') \<longrightarrow>
            ttl_seconds r = JNull
          \<and> expiry w' = expiry w
          \<and> calls w' = calls w @ [EmbedCall content, RedisConnect, RedisHSet (pattern_id r), RedisQuit])"
proof -
  from storePattern_Inr [OF assms] have
    mt: "memory_type r = (if memoryType = Undefined then JStr (utf16 ''semantic'') else memoryType)"
    and ttl: "ttl_seconds r = ttl_of (memory_type r)"
    and ex: "expiry w' = (if truthy (ttl_seconds r) then (expiry w)(pattern_id r \<mapsto> ttl_seconds r) else expiry w)"
    and cs: "calls w' = calls w @ [EmbedCall content, RedisConnect, RedisHSet (pattern_id r)]
              @ (if truthy (ttl_seconds r) then [RedisExpire (pattern_id r) (ttl_seconds r)] else [])
              @ [RedisQuit]"
    by blast+
  show ?thesis
  proof (intro conjI impI)
    assume e: "memoryType = JStr (utf16 ''episodic'')"
    with mt ttl show t: "ttl_seconds r = JNum 7776000" by (simp add: ttl_of_episodic)
    from ex t show "expiry w' (pattern_id r) = Some (JNum 7776000)" by simp
    from cs t show "calls w' = calls w @ [EmbedCall content, RedisConnect, RedisHSet (pattern_id r),
                                   RedisExpire (pattern_id r) (JNum 7776000), RedisQuit]" by simp
  next
    assume s: "memoryType = JStr (utf16 ''semantic'') \<or> memoryType = JStr (utf16 ''procedural'')"
    with mt ttl show t: "ttl_seconds r = JNull" by (auto simp: ttl_of_semantic ttl_of_procedural)
    from ex t show "expiry w' = expiry w" by simp
    from cs t show "calls w' = calls w @ [EmbedCall content, RedisConnect, RedisHSet (pattern_id r), RedisQuit]" by simp
  qed
qed

theorem tier_ttl_law_witness:
  "fst demo_store_episodic = Inr demo_episodic_result
   \<and> ttl_seconds demo_episodic_result = JNum 7776000
   \<and> expiry (snd demo_store_episodic) (utf16 ''pattern:episodic:solution:3105'') = Some (JNum 7776000)
   \<and> fst demo_store_semantic = Inr demo_semantic_result
   \<and> ttl_seconds demo_semantic_result = JNull
   \<and> expiry (snd demo_store_semantic) (utf16 ''pattern:semantic:solution:3105'') = None"
proof -
  have s: "storePattern demo_env empty_world (JStr (utf16 ''solution'')) (JStr (utf16 ''semantic''))
       (JStr (utf16 ''ab'')) md0 = (Inr demo_semantic_result, snd demo_store_semantic)"
    using demo_store_semantic_fst by (simp add: demo_store_semantic_def prod_eq_iff)
  from tier_ttl_law [OF demo_store_episodic_eq] tier_ttl_law [OF s]
    demo_store_episodic_fst demo_store_semantic_fst
  show ?thesis
    by (simp add: demo_episodic_result_def demo_semantic_result_def empty_world_def)
qed

text \<open>
  C7. Two \<^verbatim>\<open>storePattern\<close> calls with the same category, memory type and content return
  the same pattern id, whatever the metadata, the world and the collaborators of each
  call are. The id is \<^verbatim>\<open>pattern:{memory_type}:{category}:{digest}\<close>, where the digest
  is a function of the content alone, not negative and below 100000000.
\<close>

theorem pattern_identity:
  assumes "storePattern env1 w1 (JStr category) (JStr memoryType) (JStr content) metadata1 = (Inr r1, w1')"
      and "storePattern env2 w2 (JStr category) (JStr memoryType) (JStr content) metadata2 = (Inr r2, w2')"
  shows "pattern_id r1 = pattern_id r2
       \<and> pattern_id r1 = utf16 ''pattern:'' @ memoryType @ utf16 '':'' @ category @ utf16 '':''
                           @ show_nat (digest (hash_string content))
       \<and> digest (hash_string content) < 100000000"
proof -
  have h: "hashCode env (JStr content) = Inr (hash_string content)" for env
    by (simp add: hashCode_def)
  from storePattern_Inr [OF assms(1)] h [of env1]
  have a: "pattern_id r1 = patternId_of env1 (JStr memoryType) (JStr category) (hash_string content)"
    by auto
  from storePattern_Inr [OF assms(2)] h [of env2]
  have b: "pattern_id r2 = patternId_of env2 (JStr memoryType) (JStr category) (hash_string content)"
    by auto
  from a b show ?thesis by (simp add: patternId_of_def digest_bound)
qed

theorem pattern_identity_witness:
  "fst demo_store_episodic = Inr demo_episodic_result
   \<and> fst demo_store_again = Inr demo_episodic_result
   \<and> pattern_id demo_episodic_result = utf16 ''pattern:episodic:solution:3105''
   \<and> digest (hash_string (utf16 ''ab'')) = 3105"
proof -
  have s: "storePattern demo_env (snd demo_store_episodic) (JStr (utf16 ''solution'')) (JStr (utf16 ''episodic''))
       (JStr (utf16 ''ab'')) md1 = (Inr demo_episodic_result, snd demo_store_again)"
    using demo_store_again_fst by (simp add: demo_store_again_def prod_eq_iff)
  have d: "digest (hash_string (utf16 ''ab'')) = 3105"
    by (simp add: digest_def utf16_def hash_string_def hash_step_def to_int32_def)
  from pattern_identity [OF demo_store_episodic_eq s] demo_store_episodic_fst demo_store_again_fst d
  show ?thesis by (simp add: demo_episodic_result_def)
qed

subsection \<open>Consolidation\<close>

lemmas search_evals = searchPatterns_def decimal_def int_digits_def ft_search_def tag_filter_def parse_doc_def
  decorate_def calculateConfidenceDecay_def js_get_opt_def opt_str_def to_number_def to_primitive_def
  Math_pow_past clamp_times_Fin

lemmas consolidate_evals = consolidateMemories_def phase1_def phase2_def evidenceCount_of_def
  confidence_of_def js_ge_def episodic_candidate_def canonical_candidate_def preview_def
  promoted_metadata_def SEMANTIC_TO_LONGTERM_def MIN_CONFIDENCE_def

lemma obj_get_obj_set: "obj_get (obj_set kvs k v) k' = (if k' = k then v else obj_get kvs k')"
  by (induction kvs) (auto simp: obj_get_def)

lemmas demo_evals = demo_world3_def demo_world_hot_def episodic_doc_def consolidate_evals search_evals store_evals

lemma returned: "\<not> isl (fst x) \<Longrightarrow> x = (Inr (projr (fst x)), snd x)"
  by (cases x, cases "fst x") auto

lemma promote_loop_candidates:
  "promote_loop env dryRun minEvidence ps cands n w = (Inr (cands', n'), w') \<Longrightarrow>
   map Inr cands' = map Inr cands
      @ map episodic_candidate (filter (\<lambda>p. js_ge env (evidenceCount_of p) minEvidence) ps)"
proof (induction ps arbitrary: cands n w)
  case Nil
  then show ?case by simp
next
  case (Cons p ps)
  show ?case
  proof (cases "js_ge env (evidenceCount_of p) minEvidence")
    case False
    with Cons show ?thesis by simp
  next
    case True
    with Cons.prems obtain c where c: "episodic_candidate p = Inr c"
      by (auto split: sum.splits)
    show ?thesis
    proof (cases dryRun)
      case dry: True
      with Cons.prems True c
      have "promote_loop env dryRun minEvidence ps (cands @ [c]) n w = (Inr (cands', n'), w')"
        by simp
      from Cons.IH [OF this] True c show ?thesis by simp
    next
      case wet: False
      with Cons.prems True c obtain r w1 where
        "promote_loop env dryRun minEvidence ps (cands @ [c]) (n + 1) w1 = (Inr (cands', n'), w')"
        by (auto split: sum.splits prod.splits)
      from Cons.IH [OF this] True c show ?thesis by simp
    qed
  qed
qed

lemma promote_loop_dry:
  "promote_loop env True minEvidence ps cands n w = (res, w') \<Longrightarrow>
   w' = w \<and> (case res of Inl e \<Rightarrow> True | Inr x \<Rightarrow> snd x = n)"
  by (induction ps arbitrary: cands n) (auto split: sum.splits if_splits)

lemma graduate_loop_candidates:
  "graduate_loop env dryRun ps cands n = Inr (cands', n') \<Longrightarrow>
   map Inr cands' = map Inr cands
      @ map canonical_candidate
          (filter (\<lambda>p. js_ge env (evidenceCount_of p) (JNum SEMANTIC_TO_LONGTERM)
                      \<and> js_ge env (confidence_of p) (JNum MIN_CONFIDENCE)) ps)"
  by (induction ps arbitrary: cands n) (auto split: sum.splits if_splits)

lemma graduate_loop_dry:
  "graduate_loop env True ps cands n = Inr (cands', n') \<Longrightarrow> n' = n"
  by (induction ps arbitrary: cands n) (auto split: sum.splits if_splits)

lemma map_Inr_eq: "map Inr xs = (map Inr ys :: ('a + 'b) list) \<Longrightarrow> xs = ys"
  by (simp add: inj_map_eq_map [OF inj_Inr, of xs ys])

lemma searchPatterns_frame:
  "searchPatterns env w q k c m = (res, w') \<Longrightarrow>
   store w' = store w \<and> expiry w' = expiry w \<and> clock w' = clock w
   \<and> (\<exists>cs. calls w' = calls w @ cs \<and> \<not> list_ex is_write cs)"
  by (auto simp: searchPatterns_def Let_def issue_def is_write_def split: option.splits sum.splits if_splits)

lemma searchPatterns_result_indep:
  "store w1 = store w2 \<Longrightarrow> clock w1 = clock w2 \<Longrightarrow>
   fst (searchPatterns env w1 q k c m) = fst (searchPatterns env w2 q k c m)"
  by (auto simp: searchPatterns_def Let_def issue_def split: option.splits sum.splits if_splits)

lemma js_ge_typed:
  "evidence_typed p \<Longrightarrow> js_ge env (evidenceCount_of p) (JNum m) = (m \<le> evidence_number p)"
  by (auto simp: evidence_typed_def evidence_number_def evidenceCount_of_def js_or_def js_ge_def
        to_number_def to_primitive_def split: jsval.splits)

lemma episodic_candidate_ids:
  "map Inr cs = map episodic_candidate ps \<Longrightarrow> map c_pattern_id cs = map p_pattern_id ps"
proof (induction ps arbitrary: cs)
  case Nil
  then show ?case by simp
next
  case (Cons p ps)
  then obtain c cs' where cs: "cs = c # cs'" by (cases cs) auto
  with Cons.prems have "episodic_candidate p = Inr c" and "map Inr cs' = map episodic_candidate ps"
    by auto
  with Cons.IH cs show ?case
    by (auto simp: episodic_candidate_def split: sum.splits)
qed

lemma phase1_enabled:
  assumes "phase1 env w dryRun promotionType minEvidence = (Inr (cands, n), w1)"
      and "promotionType = JStr (utf16 ''episodic_to_semantic'') \<or> promotionType = JStr (utf16 ''both'')"
  shows "\<exists>sr ws. searchPatterns env w (JStr (utf16 ''*'')) (JNum 1000) JNull (JStr (utf16 ''episodic'')) = (Inr sr, ws)
           \<and> promote_loop env dryRun minEvidence (results sr) [] 0 ws = (Inr (cands, n), w1)"
  using assms by (auto simp: phase1_def split: prod.splits sum.splits)

lemma phase1_dry_frame:
  assumes "phase1 env w True promotionType minEvidence = (res, w1)"
  shows "store w1 = store w \<and> expiry w1 = expiry w \<and> clock w1 = clock w
       \<and> (\<exists>cs. calls w1 = calls w @ cs \<and> \<not> list_ex is_write cs)
       \<and> (case res of Inl e \<Rightarrow> True | Inr x \<Rightarrow> snd x = 0)"
proof (cases "promotionType = JStr (utf16 ''episodic_to_semantic'') \<or> promotionType = JStr (utf16 ''both'')")
  case False
  with assms show ?thesis by (auto simp: phase1_def)
next
  case True
  obtain sres ws where s: "searchPatterns env w (JStr (utf16 ''*'')) (JNum 1000) JNull (JStr (utf16 ''episodic'')) = (sres, ws)"
    by (cases "searchPatterns env w (JStr (utf16 ''*'')) (JNum 1000) JNull (JStr (utf16 ''episodic''))")
  note f = searchPatterns_frame [OF s]
  show ?thesis
  proof (cases sres)
    case (Inl e)
    with assms True s f show ?thesis by (auto simp: phase1_def)
  next
    case (Inr sr)
    with assms True s have "promote_loop env True minEvidence (results sr) [] 0 ws = (res, w1)"
      by (simp add: phase1_def)
    from promote_loop_dry [OF this] f show ?thesis by simp
  qed
qed

lemma phase2_frame:
  assumes "phase2 env w dryRun promotionType = (res, w2)"
  shows "store w2 = store w \<and> expiry w2 = expiry w \<and> clock w2 = clock w
       \<and> (\<exists>cs. calls w2 = calls w @ cs \<and> \<not> list_ex is_write cs)"
proof (cases "promotionType = JStr (utf16 ''semantic_to_canonical'') \<or> promotionType = JStr (utf16 ''both'')")
  case False
  with assms show ?thesis by (auto simp: phase2_def)
next
  case True
  obtain sres ws where s: "searchPatterns env w (JStr (utf16 ''*'')) (JNum 1000) JNull (JStr (utf16 ''semantic'')) = (sres, ws)"
    by (cases "searchPatterns env w (JStr (utf16 ''*'')) (JNum 1000) JNull (JStr (utf16 ''semantic''))")
  from assms True s have "w2 = ws"
    by (auto simp: phase2_def split: sum.splits)
  with searchPatterns_frame [OF s] show ?thesis by simp
qed

lemma phase2_dry_zero:
  "phase2 env w True promotionType = (Inr (cands, g), w2) \<Longrightarrow> g = 0"
  by (auto simp: phase2_def split: if_splits prod.splits sum.splits dest: graduate_loop_dry)

lemma phase2_candidates_indep:
  assumes st: "store wa = store wb" and ck: "clock wa = clock wb"
      and a: "phase2 env wa da promotionType = (Inr (ca, ga), wa')"
      and b: "phase2 env wb db promotionType = (Inr (cb, gb), wb')"
  shows "ca = cb"
proof (cases "promotionType = JStr (utf16 ''semantic_to_canonical'') \<or> promotionType = JStr (utf16 ''both'')")
  case False
  with a b show ?thesis by (auto simp: phase2_def)
next
  case True
  from a True obtain sra wsa where
    sa: "searchPatterns env wa (JStr (utf16 ''*'')) (JNum 1000) JNull (JStr (utf16 ''semantic'')) = (Inr sra, wsa)"
    and la: "graduate_loop env da (results sra) [] 0 = Inr (ca, ga)"
    by (auto simp: phase2_def split: prod.splits sum.splits)
  from b True obtain srb wsb where
    sb: "searchPatterns env wb (JStr (utf16 ''*'')) (JNum 1000) JNull (JStr (utf16 ''semantic'')) = (Inr srb, wsb)"
    and lb: "graduate_loop env db (results srb) [] 0 = Inr (cb, gb)"
    by (auto simp: phase2_def split: prod.splits sum.splits)
  from searchPatterns_result_indep [OF st ck, of env "JStr (utf16 ''*'')" "JNum 1000" JNull "JStr (utf16 ''semantic'')"] sa sb
  have "sra = srb" by simp
  with graduate_loop_candidates [OF la] graduate_loop_candidates [OF lb]
  have "map Inr ca = (map Inr cb :: (error + candidate) list)" by simp
  then show ?thesis by (rule map_Inr_eq)
qed

lemma phase1_candidates_indep:
  assumes a: "phase1 env w da promotionType minEvidence = (Inr (ca, na), wa)"
      and b: "phase1 env w db promotionType minEvidence = (Inr (cb, nb), wb)"
  shows "ca = cb"
proof (cases "promotionType = JStr (utf16 ''episodic_to_semantic'') \<or> promotionType = JStr (utf16 ''both'')")
  case False
  with a b show ?thesis by (auto simp: phase1_def)
next
  case True
  from phase1_enabled [OF a True] obtain sr ws where
    s: "searchPatterns env w (JStr (utf16 ''*'')) (JNum 1000) JNull (JStr (utf16 ''episodic'')) = (Inr sr, ws)"
    and la: "promote_loop env da minEvidence (results sr) [] 0 ws = (Inr (ca, na), wa)"
    by blast
  from phase1_enabled [OF b True] s
  have lb: "promote_loop env db minEvidence (results sr) [] 0 ws = (Inr (cb, nb), wb)"
    by auto
  from promote_loop_candidates [OF la] promote_loop_candidates [OF lb]
  have "map Inr ca = (map Inr cb :: (error + candidate) list)" by simp
  then show ?thesis by (rule map_Inr_eq)
qed

lemma phase_skipped:
  "promotionType \<noteq> JStr (utf16 ''episodic_to_semantic'') \<Longrightarrow> promotionType \<noteq> JStr (utf16 ''both'') \<Longrightarrow>
   phase1 env w dryRun promotionType minEvidence = (Inr ([], 0), w)"
  "promotionType \<noteq> JStr (utf16 ''semantic_to_canonical'') \<Longrightarrow> promotionType \<noteq> JStr (utf16 ''both'') \<Longrightarrow>
   phase2 env w dryRun promotionType = (Inr ([], 0), w)"
  by (simp_all add: phase1_def phase2_def)

lemma demo_enum3_ok: "\<not> isl (fst demo_enum3)"
  by (simp add: demo_enum3_def demo_evals)

lemma demo_dry3_ok: "\<not> isl (fst demo_dry3)"
  by (simp add: demo_dry3_def demo_evals)

lemma demo_wet3_ok: "\<not> isl (fst demo_wet3)"
  by (simp add: demo_wet3_def demo_evals)

lemma demo_enum3_results:
  "map (\<lambda>p. (p_pattern_id p, js_get_opt (p_metadata p) (utf16 ''evidence_count''))) (results (projr (fst demo_enum3)))
     = [(utf16 ''pattern:episodic:solution:5'', JNum 5),
        (utf16 ''pattern:episodic:solution:4'', JNum 4),
        (utf16 ''pattern:episodic:solution:0'', Undefined)]"
  by (simp add: demo_enum3_def demo_evals)

text \<open>
  C5. In phase 1, with a numeric threshold and evidence counts that are numbers or
  missing, the candidates recorded are exactly the candidates of the enumerated episodic
  patterns whose evidence count is at least the threshold, in the order of the
  enumeration; a pattern without an evidence count counts as having 0.
\<close>

theorem promotion_threshold:
  assumes ret: "consolidateMemories env w dryRun promotionType (JNum m) = (Inr r, w')"
      and pt: "promotionType = JStr (utf16 ''episodic_to_semantic'') \<or> promotionType = JStr (utf16 ''both'')"
      and enum: "searchPatterns env w (JStr (utf16 ''*'')) (JNum 1000) JNull (JStr (utf16 ''episodic'')) = (Inr sr, ws)"
      and typed: "list_all evidence_typed (results sr)"
  shows "map Inr (e2s_candidates r)
           = map episodic_candidate (filter (\<lambda>p. m \<le> evidence_number p) (results sr))
       \<and> map c_pattern_id (e2s_candidates r)
           = map p_pattern_id (filter (\<lambda>p. m \<le> evidence_number p) (results sr))"
proof -
  from pt have nu: "promotionType \<noteq> Undefined" by auto
  from ret nu obtain n w1 where
    p1: "phase1 env w dryRun promotionType (JNum m) = (Inr (e2s_candidates r, n), w1)"
    by (auto simp: consolidateMemories_def split: prod.splits sum.splits)
  from phase1_enabled [OF p1 pt] enum
  have "promote_loop env dryRun (JNum m) (results sr) [] 0 ws = (Inr (e2s_candidates r, n), w1)"
    by auto
  from promote_loop_candidates [OF this]
  have "map Inr (e2s_candidates r)
          = map episodic_candidate (filter (\<lambda>p. js_ge env (evidenceCount_of p) (JNum m)) (results sr))"
    by simp
  moreover have "filter (\<lambda>p. js_ge env (evidenceCount_of p) (JNum m)) (results sr)
                   = filter (\<lambda>p. m \<le> evidence_number p) (results sr)"
    using typed by (intro filter_cong refl) (simp add: list_all_iff js_ge_typed)
  ultimately have a: "map Inr (e2s_candidates r)
           = map episodic_candidate (filter (\<lambda>p. m \<le> evidence_number p) (results sr))"
    by simp
  from a episodic_candidate_ids [OF a] show ?thesis by simp
qed

text \<open>
  With the threshold 5, the pattern with evidence count 5 is a candidate, the one with 4
  is not, and the one without an evidence count is not.
\<close>

theorem promotion_threshold_witness:
  "map (\<lambda>p. (p_pattern_id p, js_get_opt (p_metadata p) (utf16 ''evidence_count''))) (results (projr (fst demo_enum3)))
     = [(utf16 ''pattern:episodic:solution:5'', JNum 5),
        (utf16 ''pattern:episodic:solution:4'', JNum 4),
        (utf16 ''pattern:episodic:solution:0'', Undefined)]
   \<and> list_all evidence_typed (results (projr (fst demo_enum3)))
   \<and> \<not> isl (fst demo_dry3)
   \<and> map c_pattern_id (e2s_candidates (projr (fst demo_dry3))) = [utf16 ''pattern:episodic:solution:5'']"
proof -
  have ret: "consolidateMemories demo_env demo_world3 True (JStr (utf16 ''episodic_to_semantic'')) (JNum 5)
               = (Inr (projr (fst demo_dry3)), snd demo_dry3)"
    using returned [OF demo_dry3_ok] by (simp add: demo_dry3_def)
  have enum: "searchPatterns demo_env demo_world3 (JStr (utf16 ''*'')) (JNum 1000) JNull (JStr (utf16 ''episodic''))
               = (Inr (projr (fst demo_enum3)), snd demo_enum3)"
    using returned [OF demo_enum3_ok] by (simp add: demo_enum3_def)
  have typed: "list_all evidence_typed (results (projr (fst demo_enum3)))"
    by (simp add: demo_enum3_def evidence_typed_def demo_evals)
  have sel: "map p_pattern_id (filter (\<lambda>p. 5 \<le> evidence_number p) (results (projr (fst demo_enum3))))
               = [utf16 ''pattern:episodic:solution:5'']"
    by (simp add: demo_enum3_def evidence_number_def demo_evals)
  from promotion_threshold [OF ret _ enum typed] sel
  have "map c_pattern_id (e2s_candidates (projr (fst demo_dry3))) = [utf16 ''pattern:episodic:solution:5'']"
    by simp
  with demo_enum3_results typed demo_dry3_ok show ?thesis by simp
qed

text \<open>
  C4, as stated, fails when both phases run: without the dry-run flag phase 1 writes the
  semantic copies that phase 2 then enumerates, so the candidates of phase 2 differ from
  those of the dry run on the same data.
\<close>

theorem dry_run_both_counterexample:
  "candidate_ids (consolidateMemories demo_env demo_world_hot True (JStr (utf16 ''both'')) (JNum 5))
     = Some ([utf16 ''pattern:episodic:solution:a''], [])
   \<and> candidate_ids (consolidateMemories demo_env demo_world_hot False (JStr (utf16 ''both'')) (JNum 5))
     = Some ([utf16 ''pattern:episodic:solution:a''], [utf16 ''pattern:semantic:solution:97''])"
  by (simp add: candidate_ids_def demo_evals)

text \<open>
  C4, amended. When a dry run and a committing run on the same data both return, they
  report the same phase 1 candidates, and the same phase 2 candidates unless the
  promotion type is \<^verbatim>\<open>both\<close>; the dry run leaves both counters at 0, leaves the store
  and the expirations as they were, and issues no write.
\<close>

theorem dry_run_purity:
  assumes dry: "consolidateMemories env w True promotionType minEvidence = (Inr rd, wd)"
      and wet: "consolidateMemories env w False promotionType minEvidence = (Inr rw, ww)"
  shows "e2s_candidates rd = e2s_candidates rw
       \<and> (promotionType \<noteq> JStr (utf16 ''both'') \<longrightarrow> s2c_candidates rd = s2c_candidates rw)
       \<and> e2s_promoted rd = 0 \<and> s2c_graduated rd = 0
       \<and> store wd = store w \<and> expiry wd = expiry w
       \<and> (\<exists>cs. calls wd = calls w @ cs \<and> \<not> list_ex is_write cs)"
proof -
  define pt where "pt = (if promotionType = Undefined then JStr (utf16 ''episodic_to_semantic'') else promotionType)"
  define me where "me = (if minEvidence = Undefined then JNum 5 else minEvidence)"
  from dry obtain nd w1d gd where
    d1: "phase1 env w True pt me = (Inr (e2s_candidates rd, nd), w1d)"
    and d2: "phase2 env w1d True pt = (Inr (s2c_candidates rd, gd), wd)"
    and dn: "e2s_promoted rd = nd" "s2c_graduated rd = gd"
    by (auto simp: consolidateMemories_def pt_def me_def Let_def split: prod.splits sum.splits)
  from wet obtain nw w1w gw where
    w1: "phase1 env w False pt me = (Inr (e2s_candidates rw, nw), w1w)"
    and w2: "phase2 env w1w False pt = (Inr (s2c_candidates rw, gw), ww)"
    by (auto simp: consolidateMemories_def pt_def me_def Let_def split: prod.splits sum.splits)
  note f1 = phase1_dry_frame [OF d1]
  note f2 = phase2_frame [OF d2]
  have c1: "e2s_candidates rd = e2s_candidates rw"
    by (rule phase1_candidates_indep [OF d1 w1])
  have zero: "e2s_promoted rd = 0 \<and> s2c_graduated rd = 0"
    using f1 phase2_dry_zero [OF d2] dn by simp
  have frame: "store wd = store w \<and> expiry wd = expiry w"
    using f1 f2 by simp
  from f1 obtain cs1 where cs1: "calls w1d = calls w @ cs1" "\<not> list_ex is_write cs1" by blast
  from f2 obtain cs2 where cs2: "calls wd = calls w1d @ cs2" "\<not> list_ex is_write cs2" by blast
  have log: "\<exists>cs. calls wd = calls w @ cs \<and> \<not> list_ex is_write cs"
    using cs1 cs2 by (intro exI [of _ "cs1 @ cs2"]) simp
  have c2: "s2c_candidates rd = s2c_candidates rw" if nb: "promotionType \<noteq> JStr (utf16 ''both'')"
  proof -
    have ptnb: "pt \<noteq> JStr (utf16 ''both'')"
      using nb by (simp add: pt_def utf16_def)
    show ?thesis
    proof (cases "pt = JStr (utf16 ''episodic_to_semantic'')")
      case True
      then have "pt \<noteq> JStr (utf16 ''semantic_to_canonical'')" by (simp add: utf16_def)
      from phase_skipped(2) [OF this ptnb] d2 w2 show ?thesis by simp
    next
      case False
      from phase_skipped(1) [OF False ptnb] d1 w1 have "w1d = w" "w1w = w" by simp_all
      with d2 w2 show ?thesis
        using phase2_candidates_indep [of w w env True pt "s2c_candidates rd" gd wd False "s2c_candidates rw" gw ww]
        by simp
    qed
  qed
  from c1 c2 zero frame log show ?thesis by blast
qed


theorem dry_run_purity_witness:
  "\<not> isl (fst demo_dry3) \<and> \<not> isl (fst demo_wet3)
   \<and> e2s_candidates (projr (fst demo_dry3)) = e2s_candidates (projr (fst demo_wet3))
   \<and> s2c_candidates (projr (fst demo_dry3)) = s2c_candidates (projr (fst demo_wet3))
   \<and> e2s_promoted (projr (fst demo_dry3)) = 0
   \<and> e2s_promoted (projr (fst demo_wet3)) = 1
   \<and> store (snd demo_dry3) = store demo_world3
   \<and> map fst (store (snd demo_wet3)) =
        map fst (store demo_world3) @ [utf16 ''pattern:semantic:solution:53'']"
proof -
  have dry: "consolidateMemories demo_env demo_world3 True (JStr (utf16 ''episodic_to_semantic'')) (JNum 5)
               = (Inr (projr (fst demo_dry3)), snd demo_dry3)"
    using returned [OF demo_dry3_ok] by (simp add: demo_dry3_def)
  have wet: "consolidateMemories demo_env demo_world3 False (JStr (utf16 ''episodic_to_semantic'')) (JNum 5)
               = (Inr (projr (fst demo_wet3)), snd demo_wet3)"
    using returned [OF demo_wet3_ok] by (simp add: demo_wet3_def)
  have nb: "JStr (utf16 ''episodic_to_semantic'') \<noteq> JStr (utf16 ''both'')"
    by (simp add: utf16_def)
  have p: "e2s_promoted (projr (fst demo_wet3)) = 1"
    by (simp add: demo_wet3_def demo_evals)
  have s: "map fst (store (snd demo_wet3)) =
        map fst (store demo_world3) @ [utf16 ''pattern:semantic:solution:53'']"
    by (simp add: demo_wet3_def demo_evals)
  from dry_run_purity [OF dry wet] nb p s demo_dry3_ok demo_wet3_ok show ?thesis by simp
qed

subsection \<open>The request handler\<close>

text \<open>
  C10. At the tool boundary a falsy \<^verbatim>\<open>min_evidence\<close> (0, \<^verbatim>\<open>null\<close>, any other falsy
  value, or none at all) gives the same result and the same world as \<^verbatim>\<open>min_evidence\<close>
  5: the threshold 0 cannot be requested.
\<close>

theorem falsy_min_evidence_is_five:
  "(\<not> truthy v \<longrightarrow>
      call_consolidate_memories env w (JObj (obj_set kvs (utf16 ''min_evidence'') v))
      = call_consolidate_memories env w (JObj (obj_set kvs (utf16 ''min_evidence'') (JNum 5))))
   \<and> (obj_get kvs (utf16 ''min_evidence'') = Undefined \<longrightarrow>
      call_consolidate_memories env w (JObj kvs)
      = call_consolidate_memories env w (JObj (obj_set kvs (utf16 ''min_evidence'') (JNum 5))))"
proof -
  have ne: "utf16 ''dry_run'' \<noteq> utf16 ''min_evidence''" "utf16 ''promotion_type'' \<noteq> utf16 ''min_evidence''"
    by (simp_all add: utf16_def)
  show ?thesis
    using ne by (simp add: call_consolidate_memories_def js_get_opt_def obj_get_obj_set js_or_def)
qed


theorem falsy_min_evidence_is_five_witness:
  "\<not> truthy (JNum 0)
   \<and> call_consolidate_memories demo_env demo_world3
        (JObj [(utf16 ''dry_run'', JBool False), (utf16 ''min_evidence'', JNum 0)])
     = call_consolidate_memories demo_env demo_world3
        (JObj [(utf16 ''dry_run'', JBool False), (utf16 ''min_evidence'', JNum 5)])
   \<and> obj_get [(utf16 ''dry_run'', JBool False)] (utf16 ''min_evidence'') = Undefined
   \<and> call_consolidate_memories demo_env demo_world3 (JObj [(utf16 ''dry_run'', JBool False)])
     = call_consolidate_memories demo_env demo_world3
        (JObj [(utf16 ''dry_run'', JBool False), (utf16 ''min_evidence'', JNum 5)])
   \<and> candidate_ids (call_consolidate_memories demo_env demo_world3
        (JObj [(utf16 ''dry_run'', JBool False), (utf16 ''min_evidence'', JNum 0)]))
     = Some ([utf16 ''pattern:episodic:solution:5''], [])"
proof -
  have ne: "utf16 ''dry_run'' \<noteq> utf16 ''min_evidence''" by (simp add: utf16_def)
  have u: "obj_get [(utf16 ''dry_run'', JBool False)] (utf16 ''min_evidence'') = Undefined"
    using ne by (simp add: obj_get_def)
  have c: "candidate_ids (call_consolidate_memories demo_env demo_world3
        (JObj [(utf16 ''dry_run'', JBool False), (utf16 ''min_evidence'', JNum 5)]))
     = Some ([utf16 ''pattern:episodic:solution:5''], [])"
    by (simp add: candidate_ids_def call_consolidate_memories_def demo_evals)
  from falsy_min_evidence_is_five [of "JNum 0" demo_env demo_world3 "[(utf16 ''dry_run'', JBool False)]"]
    ne u c
  show ?thesis by simp
qed


subsection \<open>Search\<close>

lemma decorate_JObj:
  "decorate env now (JObj kvs) =
     Inr (if truthy (obj_get kvs (utf16 ''confidence'')) \<and> truthy (obj_get kvs (utf16 ''last_validated''))
          then JObj (obj_set
                 (obj_set kvs (utf16 ''confidence_current'')
                    (calculateConfidenceDecay env now (obj_get kvs (utf16 ''confidence''))
                       (obj_get kvs (utf16 ''last_validated''))))
                 (utf16 ''confidence_original'') (obj_get kvs (utf16 ''confidence'')))
          else JObj kvs)"
  by (simp add: decorate_def)

lemma parse_doc_exposes:
  assumes "parse_doc env now doc = Inr p"
  shows "hit_exposes env now doc p"
proof (cases "h_metadata (snd doc)")
  case None
  with assms show ?thesis by (auto simp: parse_doc_def hit_exposes_def)
next
  case (Some md)
  with assms have d: "decorate env now md = Inr (p_metadata p)" and p: "p_pattern_id p = fst doc"
    by (auto simp: parse_doc_def split: sum.splits)
  show ?thesis
  proof (cases md)
    case (JObj kvs)
    have ne: "utf16 ''confidence_current'' \<noteq> utf16 ''confidence_original''"
      "utf16 ''confidence'' \<noteq> utf16 ''confidence_original''"
      "utf16 ''confidence'' \<noteq> utf16 ''confidence_current''"
      by (simp_all add: utf16_def)
    from d JObj have m: "p_metadata p =
       (if truthy (obj_get kvs (utf16 ''confidence'')) \<and> truthy (obj_get kvs (utf16 ''last_validated''))
          then JObj (obj_set
                 (obj_set kvs (utf16 ''confidence_current'')
                    (calculateConfidenceDecay env now (obj_get kvs (utf16 ''confidence''))
                       (obj_get kvs (utf16 ''last_validated''))))
                 (utf16 ''confidence_original'') (obj_get kvs (utf16 ''confidence'')))
          else JObj kvs)"
      by (simp add: decorate_JObj)
    show ?thesis
      using ne p Some JObj by (simp add: hit_exposes_def m obj_get_obj_set)
  qed (use Some p in \<open>simp_all add: hit_exposes_def\<close>)
qed

lemma parse_results_exposes:
  "parse_results env now docs = Inr ps \<Longrightarrow> list_all2 (hit_exposes env now) docs ps"
  by (induction docs arbitrary: ps) (auto split: sum.splits dest: parse_doc_exposes)

lemma demo_search_month_ok: "\<not> isl (fst demo_search_month)"
  by (simp add: demo_search_month_def demo_world_month_def demo_evals)

text \<open>
  C6, as stated, fails: the code tests the two fields for truthiness, not for presence,
  so a hit whose stored confidence is 0 exposes neither \<^verbatim>\<open>confidence_original\<close> nor
  \<^verbatim>\<open>confidence_current\<close>.
\<close>

theorem search_zero_confidence_counterexample:
  "stored_has_field demo_world_zero (utf16 ''pattern:episodic:solution:z'') (utf16 ''confidence'')
   \<and> stored_has_field demo_world_zero (utf16 ''pattern:episodic:solution:z'') (utf16 ''last_validated'')
   \<and> stored_field demo_world_zero (utf16 ''pattern:episodic:solution:z'') (utf16 ''confidence'') = JNum 0
   \<and> exposed (searchPatterns demo_env demo_world_zero (JStr (utf16 ''q'')) Undefined Undefined Undefined)
     = Some [(JNum 0, Undefined, Undefined)]"
  by (simp add: exposed_def stored_has_field_def stored_field_def has_key_def demo_world_zero_def demo_evals)

text \<open>
  C6, amended. In a returning search, every hit whose stored metadata is an object with
  a truthy \<^verbatim>\<open>confidence\<close> (for a number: other than 0) and a truthy
  \<^verbatim>\<open>last_validated\<close> (for a string: not empty) exposes \<^verbatim>\<open>confidence_original\<close>, equal to the stored confidence, and
  \<^verbatim>\<open>confidence_current\<close>, the value of the decay function at the time of the search;
  its \<^verbatim>\<open>confidence\<close> is the stored one. Any other hit with an object as metadata is
  returned as stored. The search leaves the store as it was.
\<close>

theorem search_exposes_decay:
  assumes ret: "searchPatterns env w q k category memoryType = (Inr sr, w')"
  shows "store w' = store w
       \<and> (\<exists>vec n. generateEmbedding env q = Some vec
             \<and> knn_count env (to_string env (if k = Undefined then JNum 5 else k)) = Some n
             \<and> list_all2 (hit_exposes env (clock w))
                 (ft_search env (store w) vec n
                    (if category = Undefined then JNull else category)
                    (if memoryType = Undefined then JNull else memoryType))
                 (results sr))"
proof -
  from ret obtain vec n where
    vec: "generateEmbedding env q = Some vec"
    and n: "knn_count env (to_string env (if k = Undefined then JNum 5 else k)) = Some n"
    and p: "parse_results env (clock w)
           (ft_search env (store w) vec n
              (if category = Undefined then JNull else category)
              (if memoryType = Undefined then JNull else memoryType)) = Inr (results sr)"
    by (auto simp: searchPatterns_def Let_def split: option.splits if_splits sum.splits)
  from parse_results_exposes [OF p] vec n searchPatterns_frame [OF ret] show ?thesis by blast
qed

text \<open>
  A search with the count given as the text \<^verbatim>\<open>"5"\<close>: the hit of confidence 0.9,
  validated one month before, exposes 0.9 and 0.855.
\<close>

theorem search_exposes_decay_witness:
  "\<not> isl (fst demo_search_month)
   \<and> store (snd demo_search_month) = store demo_world_month
   \<and> generateEmbedding demo_env (JStr (utf16 ''q'')) = Some []
   \<and> knn_count demo_env (to_string demo_env (JStr (utf16 ''5''))) = Some 5
   \<and> list_all2 (hit_exposes demo_env 2592000000) (store demo_world_month) (results (projr (fst demo_search_month)))
   \<and> exposed demo_search_month = Some [(JNum (9 / 10), JNum (9 / 10), JNum (171 / 200))]"
proof -
  have ret: "searchPatterns demo_env demo_world_month (JStr (utf16 ''q'')) (JStr (utf16 ''5'')) Undefined Undefined
               = (Inr (projr (fst demo_search_month)), snd demo_search_month)"
    using returned [OF demo_search_month_ok] by (simp add: demo_search_month_def)
  have vec: "generateEmbedding demo_env (JStr (utf16 ''q'')) = Some []" by (simp add: demo_env_def)
  have n: "knn_count demo_env (to_string demo_env (JStr (utf16 ''5''))) = Some 5"
    by (simp add: demo_env_def decimal_def utf16_def)
  have docs: "ft_search demo_env (store demo_world_month) [] 5 JNull JNull = store demo_world_month"
    by (simp add: ft_search_def tag_filter_def demo_world_month_def demo_env_def)
  have ck: "clock demo_world_month = 2592000000" by (simp add: demo_world_month_def)
  have e: "exposed demo_search_month = Some [(JNum (9 / 10), JNum (9 / 10), JNum (171 / 200))]"
    by (simp add: exposed_def demo_search_month_def demo_world_month_def demo_evals)
  have u: "JStr (utf16 ''5'') \<noteq> Undefined" by simp
  from search_exposes_decay [OF ret] vec n docs ck e u demo_search_month_ok
  show ?thesis by simp
qed

subsection \<open>What is stored\<close>








lemma enrichedMetadata_JObj:
  "enrichedMetadata env now (JObj kvs) =
     Inr (JObj (obj_set (obj_set (obj_set (obj_set kvs
            (utf16 ''created_at'') (JStr (toISOString env now)))
            (utf16 ''last_validated'') (JStr (toISOString env now)))
            (utf16 ''source'') (js_or (obj_get kvs (utf16 ''source'')) (JStr (utf16 ''unknown''))))
            (utf16 ''validation_contexts'') (js_or (obj_get kvs (utf16 ''validation_contexts'')) (JArr []))))"
  by (simp add: enrichedMetadata_def Let_def)

lemma enriched_keeps:
  assumes "k \<notin> {utf16 ''created_at'', utf16 ''last_validated'', utf16 ''source'', utf16 ''validation_contexts''}"
      and "enrichedMetadata env now (JObj kvs) = Inr (JObj md)"
  shows "obj_get md k = obj_get kvs k"
  using assms by (auto simp: enrichedMetadata_JObj obj_get_obj_set)




subsection \<open>Malformed requests\<close>

lemma storePattern_rejects:
  assumes "content = Undefined \<or> content = JNull \<or> metadata = Undefined \<or> metadata = JNull"
  shows "\<exists>e. storePattern env w category memoryType content metadata = (Inl e, issue [EmbedCall content] w)"
proof (cases "generateEmbedding env content")
  case None
  then show ?thesis by (simp add: storePattern_def Let_def)
next
  case (Some emb)
  show ?thesis
  proof (cases "hashCode env content")
    case (Inl e)
    with Some show ?thesis by (simp add: storePattern_def Let_def)
  next
    case (Inr h)
    with assms have "metadata = Undefined \<or> metadata = JNull"
      by (auto simp: hashCode_def)
    then have "enrichedMetadata env (clock w) metadata = Inl TypeError"
      by (auto simp: enrichedMetadata_def Let_def)
    with Some Inr show ?thesis by (simp add: storePattern_def Let_def)
  qed
qed

lemma unknown_tier_no_ttl:
  "m \<notin> {utf16 ''semantic'', utf16 ''episodic'', utf16 ''procedural''} \<Longrightarrow> ttl_of (JStr m) = Undefined"
  by (auto simp: ttl_of_def MEMORY_TYPES_def)

lemma storePattern_returns:
  assumes "generateEmbedding env (JStr s) = Some emb" and "redis_up env"
  shows "\<exists>r w'. storePattern env w (JStr c) (JStr m) (JStr s) (JObj md) = (Inr r, w')"
  using assms
  by (simp add: storePattern_def Let_def hashCode_def enrichedMetadata_JObj field_arg_def)

lemma searchPatterns_embeds_first:
  "\<exists>cs. calls (snd (searchPatterns env w q k c m)) = calls w @ EmbedCall q # cs"
  by (auto simp: searchPatterns_def Let_def issue_def split: option.splits sum.splits)

lemma returning_Inl: "returning f (Inl e, w) = (Inl e, w)"
  by (simp add: returning_def)

lemma returning_Inr: "returning f (Inr r, w) = (Inr (f r), w)"
  by (simp add: returning_def)

lemma snd_returning: "snd (returning f res) = snd res"
  by (simp add: returning_def split: sum.splits)

lemma consolidate_unknown_type:
  assumes "truthy pt" and "pt \<noteq> JStr (utf16 ''episodic_to_semantic'')"
      and "pt \<noteq> JStr (utf16 ''semantic_to_canonical'')" and "pt \<noteq> JStr (utf16 ''both'')"
  shows "consolidateMemories env w d pt me =
           (Inr \<lparr>r_dry_run = d, r_promotion_type = pt, e2s_candidates = [], e2s_promoted = 0,
                 s2c_candidates = [], s2c_graduated = 0\<rparr>, w)"
proof -
  from assms(1) have "pt \<noteq> Undefined" by auto
  with assms show ?thesis
    by (simp add: consolidateMemories_def phase1_def phase2_def Let_def)
qed

lemmas tool_evals = call_tool_def returning_def call_store_pattern_def call_search_patterns_def
  call_consolidate_memories_def setReminder_def checkReminders_def fields_of_def sort_reminders_def
  priority_rank_def priorityOrder_def js_get_opt_def

text \<open>
  C9, as stated, fails: nothing checks the arguments against the tool's schema. A
  request without metadata is refused only after the embedding service has been called,
  and a memory type outside the enum is not refused at all: the pattern is written.
\<close>

theorem malformed_reaches_collaborators_counterexample:
  "fst (call_tool demo_env empty_world (utf16 ''store_pattern'') demo_args_no_metadata) = Inl TypeError
   \<and> calls (snd (call_tool demo_env empty_world (utf16 ''store_pattern'') demo_args_no_metadata))
     = [EmbedCall (JStr (utf16 ''ab''))]
   \<and> \<not> isl (fst (call_tool demo_env empty_world (utf16 ''store_pattern'') demo_args_bogus_type))
   \<and> calls (snd (call_tool demo_env empty_world (utf16 ''store_pattern'') demo_args_bogus_type))
     = [EmbedCall (JStr (utf16 ''ab'')), RedisConnect, RedisHSet (utf16 ''pattern:bogus:solution:3105''), RedisQuit]"
  by (simp add: tool_evals demo_args_no_metadata_def demo_args_bogus_type_def store_evals)

text \<open>
  C9, amended. No tool checks its input against its schema. An invocation is refused
  before any external call when the tool name is unknown, or when the arguments object
  is missing and the tool is not \<^verbatim>\<open>health_check\<close>. Beyond that:
  \<^verbatim>\<open>store_pattern\<close> with content or metadata missing or \<^verbatim>\<open>null\<close> is refused after
  exactly one external call, the one to the embedding service, and before any call to
  the key-value store; a falsy memory type is handled as \<^verbatim>\<open>semantic\<close>; a non-empty
  string outside the enum as memory type is not refused, and with strings for category
  and content, an object for metadata and the collaborators available, the pattern is
  stored under that memory type with no \<^verbatim>\<open>ttl_seconds\<close> and no expiration;
  \<^verbatim>\<open>search_patterns\<close> calls the embedding service with the query it is given, whatever
  it is; \<^verbatim>\<open>set_reminder\<close> and \<^verbatim>\<open>check_reminders\<close> issue their command to a reachable
  store whatever fields are missing; \<^verbatim>\<open>consolidate_memories\<close> with a truthy promotion
  type outside the enum is not refused: it returns a report without candidates and makes
  no external call; and \<^verbatim>\<open>health_check\<close> reads no argument: it makes its three checks
  and returns, whatever it is given.
\<close>

theorem tool_input_not_validated:
  "(name \<notin> set tool_names \<longrightarrow> call_tool env w name args = (Inl UnknownTool, w))
   \<and> (name \<in> set tool_names \<and> name \<noteq> utf16 ''health_check'' \<and> (args = Undefined \<or> args = JNull) \<longrightarrow>
        call_tool env w name args = (Inl TypeError, w))
   \<and> (obj_get kvs (utf16 ''content'') = Undefined \<or> obj_get kvs (utf16 ''content'') = JNull
        \<or> obj_get kvs (utf16 ''metadata'') = Undefined \<or> obj_get kvs (utf16 ''metadata'') = JNull \<longrightarrow>
      (\<exists>e. call_tool env w (utf16 ''store_pattern'') (JObj kvs)
              = (Inl e, w\<lparr>calls := calls w @ [EmbedCall (obj_get kvs (utf16 ''content''))]\<rparr>)))
   \<and> (\<not> truthy (obj_get kvs (utf16 ''memory_type'')) \<longrightarrow>
        call_tool env w (utf16 ''store_pattern'') (JObj kvs)
        = call_tool env w (utf16 ''store_pattern'')
            (JObj (obj_set kvs (utf16 ''memory_type'') (JStr (utf16 ''semantic'')))))
   \<and> (generateEmbedding env (JStr s) = Some emb \<and> redis_up env \<and> m \<noteq> []
        \<and> m \<notin> {utf16 ''semantic'', utf16 ''episodic'', utf16 ''procedural''} \<longrightarrow>
      (\<exists>r w'. call_tool env w (utf16 ''store_pattern'')
                 (JObj [(utf16 ''category'', JStr c), (utf16 ''memory_type'', JStr m),
                        (utf16 ''content'', JStr s), (utf16 ''metadata'', JObj md)]) = (Inr (Stored r), w')
             \<and> memory_type r = JStr m \<and> ttl_seconds r = Undefined
             \<and> expiry w' = expiry w
             \<and> calls w' = calls w @ [EmbedCall (JStr s), RedisConnect, RedisHSet (pattern_id r), RedisQuit]))
   \<and> (\<exists>cs. calls (snd (call_tool env w (utf16 ''search_patterns'') (JObj kvs)))
              = calls w @ EmbedCall (obj_get kvs (utf16 ''query'')) # cs)
   \<and> (redis_up env \<longrightarrow>
      (\<exists>r w'. call_tool env w (utf16 ''set_reminder'') (JObj kvs) = (Inr (ReminderSet r), w')
             \<and> calls w' = calls w
                 @ [RedisHSet (utf16 ''reminder:'' @ to_string env (obj_get kvs (utf16 ''task_type'')))]))
   \<and> (redis_up env \<longrightarrow>
      (\<exists>r. call_tool env w (utf16 ''check_reminders'') (JObj kvs)
              = (Inr (Reminders r),
                 w\<lparr>calls := calls w
                      @ [RedisHGetAll (utf16 ''reminder:'' @ to_string env (obj_get kvs (utf16 ''task_type'')))]\<rparr>)))
   \<and> (truthy (obj_get kvs (utf16 ''promotion_type''))
        \<and> obj_get kvs (utf16 ''promotion_type'')
             \<notin> {JStr (utf16 ''episodic_to_semantic''), JStr (utf16 ''semantic_to_canonical''),
                 JStr (utf16 ''both'')} \<longrightarrow>
      (\<exists>r. call_tool env w (utf16 ''consolidate_memories'') (JObj kvs) = (Inr (Consolidated r), w)
           \<and> e2s_candidates r = [] \<and> s2c_candidates r = []))
   \<and> (\<exists>h. call_tool env w (utf16 ''health_check'') args
              = (Inr (Health h),
                 w\<lparr>calls := calls w @ [RedisPing, EmbedCall (JStr (utf16 ''test'')), RedisInfo]\<rparr>))"
proof (intro conjI impI)
  assume "name \<notin> set tool_names"
  then show "call_tool env w name args = (Inl UnknownTool, w)"
    by (simp add: call_tool_def tool_names_def)
next
  assume "name \<in> set tool_names \<and> name \<noteq> utf16 ''health_check'' \<and> (args = Undefined \<or> args = JNull)"
  then show "call_tool env w name args = (Inl TypeError, w)"
    by (auto simp: call_tool_def tool_names_def call_store_pattern_def call_search_patterns_def
          call_consolidate_memories_def returning_def)
next
  assume "obj_get kvs (utf16 ''content'') = Undefined \<or> obj_get kvs (utf16 ''content'') = JNull
        \<or> obj_get kvs (utf16 ''metadata'') = Undefined \<or> obj_get kvs (utf16 ''metadata'') = JNull"
  from storePattern_rejects [OF this, of env w "obj_get kvs (utf16 ''category'')"
         "js_or (obj_get kvs (utf16 ''memory_type'')) (JStr (utf16 ''semantic''))"]
  obtain e where "storePattern env w (obj_get kvs (utf16 ''category''))
         (js_or (obj_get kvs (utf16 ''memory_type'')) (JStr (utf16 ''semantic'')))
         (obj_get kvs (utf16 ''content'')) (obj_get kvs (utf16 ''metadata''))
       = (Inl e, issue [EmbedCall (obj_get kvs (utf16 ''content''))] w)"
    by blast
  then show "\<exists>e. call_tool env w (utf16 ''store_pattern'') (JObj kvs)
              = (Inl e, w\<lparr>calls := calls w @ [EmbedCall (obj_get kvs (utf16 ''content''))]\<rparr>)"
    by (intro exI [of _ e])
       (simp add: call_tool_def call_store_pattern_def js_get_opt_def issue_def returning_Inl)
next
  assume f: "\<not> truthy (obj_get kvs (utf16 ''memory_type''))"
  have ne: "utf16 ''category'' \<noteq> utf16 ''memory_type''" "utf16 ''content'' \<noteq> utf16 ''memory_type''"
    "utf16 ''metadata'' \<noteq> utf16 ''memory_type''"
    by (simp_all add: utf16_def)
  have t: "truthy (JStr (utf16 ''semantic''))" by (simp add: utf16_def)
  show "call_tool env w (utf16 ''store_pattern'') (JObj kvs)
        = call_tool env w (utf16 ''store_pattern'')
            (JObj (obj_set kvs (utf16 ''memory_type'') (JStr (utf16 ''semantic''))))"
    using f ne t
    by (simp add: call_tool_def call_store_pattern_def js_get_opt_def obj_get_obj_set js_or_def)
next
  assume a: "generateEmbedding env (JStr s) = Some emb \<and> redis_up env \<and> m \<noteq> []
        \<and> m \<notin> {utf16 ''semantic'', utf16 ''episodic'', utf16 ''procedural''}"
  let ?args = "[(utf16 ''category'', JStr c), (utf16 ''memory_type'', JStr m),
                        (utf16 ''content'', JStr s), (utf16 ''metadata'', JObj md)]"
  have g: "obj_get ?args (utf16 ''category'') = JStr c" "obj_get ?args (utf16 ''memory_type'') = JStr m"
    "obj_get ?args (utf16 ''content'') = JStr s" "obj_get ?args (utf16 ''metadata'') = JObj md"
    by (simp_all add: obj_get_def utf16_def)
  from a have call: "call_store_pattern env w (JObj ?args) = storePattern env w (JStr c) (JStr m) (JStr s) (JObj md)"
    by (simp add: call_store_pattern_def js_get_opt_def g js_or_def)
  from a storePattern_returns obtain r w' where
    ret: "storePattern env w (JStr c) (JStr m) (JStr s) (JObj md) = (Inr r, w')"
    by blast
  from a have ttl: "ttl_of (JStr m) = Undefined" by (simp add: unknown_tier_no_ttl)
  from storePattern_Inr [OF ret] ttl have
    "memory_type r = JStr m \<and> ttl_seconds r = Undefined \<and> expiry w' = expiry w
     \<and> calls w' = calls w @ [EmbedCall (JStr s), RedisConnect, RedisHSet (pattern_id r), RedisQuit]"
    by auto
  moreover from call ret
  have "call_tool env w (utf16 ''store_pattern'') (JObj ?args) = (Inr (Stored r), w')"
    by (simp add: call_tool_def returning_def)
  ultimately
  show "\<exists>r w'. call_tool env w (utf16 ''store_pattern'') (JObj ?args) = (Inr (Stored r), w')
             \<and> memory_type r = JStr m \<and> ttl_seconds r = Undefined
             \<and> expiry w' = expiry w
             \<and> calls w' = calls w @ [EmbedCall (JStr s), RedisConnect, RedisHSet (pattern_id r), RedisQuit]"
    by blast
next
  have n: "utf16 ''search_patterns'' \<noteq> utf16 ''store_pattern''" by (simp add: utf16_def)
  from searchPatterns_embeds_first n
  show "\<exists>cs. calls (snd (call_tool env w (utf16 ''search_patterns'') (JObj kvs)))
              = calls w @ EmbedCall (obj_get kvs (utf16 ''query'')) # cs"
    by (simp add: call_tool_def call_search_patterns_def snd_returning js_get_opt_def)
next
  assume up: "redis_up env"
  have n: "utf16 ''set_reminder'' \<noteq> utf16 ''store_pattern''"
    "utf16 ''set_reminder'' \<noteq> utf16 ''search_patterns''" by (simp_all add: utf16_def)
  from up n
  show "\<exists>r w'. call_tool env w (utf16 ''set_reminder'') (JObj kvs) = (Inr (ReminderSet r), w')
             \<and> calls w' = calls w
                 @ [RedisHSet (utf16 ''reminder:'' @ to_string env (obj_get kvs (utf16 ''task_type'')))]"
    by (simp add: call_tool_def setReminder_def returning_def Let_def issue_def js_get_opt_def)
next
  assume up: "redis_up env"
  have n: "utf16 ''check_reminders'' \<noteq> utf16 ''store_pattern''"
    "utf16 ''check_reminders'' \<noteq> utf16 ''search_patterns''"
    "utf16 ''check_reminders'' \<noteq> utf16 ''set_reminder''" by (simp_all add: utf16_def)
  from up n
  show "\<exists>r. call_tool env w (utf16 ''check_reminders'') (JObj kvs)
              = (Inr (Reminders r),
                 w\<lparr>calls := calls w
                      @ [RedisHGetAll (utf16 ''reminder:'' @ to_string env (obj_get kvs (utf16 ''task_type'')))]\<rparr>)"
    by (simp add: call_tool_def checkReminders_def returning_def Let_def issue_def js_get_opt_def)
next
  assume a: "truthy (obj_get kvs (utf16 ''promotion_type''))
        \<and> obj_get kvs (utf16 ''promotion_type'')
             \<notin> {JStr (utf16 ''episodic_to_semantic''), JStr (utf16 ''semantic_to_canonical''),
                 JStr (utf16 ''both'')}"
  have n: "utf16 ''consolidate_memories'' \<noteq> utf16 ''store_pattern''"
    "utf16 ''consolidate_memories'' \<noteq> utf16 ''search_patterns''"
    "utf16 ''consolidate_memories'' \<noteq> utf16 ''set_reminder''"
    "utf16 ''consolidate_memories'' \<noteq> utf16 ''check_reminders''"
    "utf16 ''consolidate_memories'' \<noteq> utf16 ''health_check''" by (simp_all add: utf16_def)
  from a have "consolidateMemories env w (js_get_opt (JObj kvs) (utf16 ''dry_run'') \<noteq> JBool False)
                 (obj_get kvs (utf16 ''promotion_type''))
                 (js_or (js_get_opt (JObj kvs) (utf16 ''min_evidence'')) (JNum 5))
        = (Inr \<lparr>r_dry_run = (js_get_opt (JObj kvs) (utf16 ''dry_run'') \<noteq> JBool False),
                r_promotion_type = obj_get kvs (utf16 ''promotion_type''),
                e2s_candidates = [], e2s_promoted = 0, s2c_candidates = [], s2c_graduated = 0\<rparr>, w)"
    by (intro consolidate_unknown_type) simp_all
  with a n
  show "\<exists>r. call_tool env w (utf16 ''consolidate_memories'') (JObj kvs) = (Inr (Consolidated r), w)
           \<and> e2s_candidates r = [] \<and> s2c_candidates r = []"
    by (simp add: call_tool_def call_consolidate_memories_def returning_def js_get_opt_def js_or_def)
next
  have n: "utf16 ''health_check'' \<noteq> utf16 ''store_pattern''"
    "utf16 ''health_check'' \<noteq> utf16 ''search_patterns''"
    "utf16 ''health_check'' \<noteq> utf16 ''set_reminder''"
    "utf16 ''health_check'' \<noteq> utf16 ''check_reminders''" by (simp_all add: utf16_def)
  from n
  show "\<exists>h. call_tool env w (utf16 ''health_check'') args
              = (Inr (Health h),
                 w\<lparr>calls := calls w @ [RedisPing, EmbedCall (JStr (utf16 ''test'')), RedisInfo]\<rparr>)"
    by (simp add: call_tool_def healthCheck_def returning_def issue_def)
qed

theorem tool_input_not_validated_witness:
  "utf16 ''nope'' \<notin> set tool_names
   \<and> call_tool demo_env empty_world (utf16 ''nope'') (JObj []) = (Inl UnknownTool, empty_world)
   \<and> utf16 ''set_reminder'' \<in> set tool_names \<and> utf16 ''set_reminder'' \<noteq> utf16 ''health_check''
   \<and> call_tool demo_env empty_world (utf16 ''set_reminder'') Undefined = (Inl TypeError, empty_world)
   \<and> obj_get [(utf16 ''category'', JStr (utf16 ''solution'')), (utf16 ''content'', JStr (utf16 ''ab''))]
        (utf16 ''metadata'') = Undefined
   \<and> isl (fst (call_tool demo_env empty_world (utf16 ''store_pattern'') demo_args_no_metadata))
   \<and> calls (snd (call_tool demo_env empty_world (utf16 ''store_pattern'') demo_args_no_metadata))
       = [EmbedCall (JStr (utf16 ''ab''))]
   \<and> \<not> truthy (JStr [])
   \<and> call_tool demo_env empty_world (utf16 ''store_pattern'') demo_args_empty_type
       = call_tool demo_env empty_world (utf16 ''store_pattern'')
           (JObj [(utf16 ''category'', JStr (utf16 ''solution'')),
                  (utf16 ''memory_type'', JStr (utf16 ''semantic'')),
                  (utf16 ''content'', JStr (utf16 ''ab'')), (utf16 ''metadata'', md0)])
   \<and> fst (call_tool demo_env empty_world (utf16 ''store_pattern'') demo_args_empty_type)
       = Inr (Stored demo_semantic_result)
   \<and> generateEmbedding demo_env (JStr (utf16 ''ab'')) = Some [] \<and> redis_up demo_env
   \<and> utf16 ''bogus'' \<noteq> []
   \<and> utf16 ''bogus'' \<notin> {utf16 ''semantic'', utf16 ''episodic'', utf16 ''procedural''}
   \<and> \<not> isl (fst (call_tool demo_env empty_world (utf16 ''store_pattern'') demo_args_bogus_type))
   \<and> calls (snd (call_tool demo_env empty_world (utf16 ''store_pattern'') demo_args_bogus_type))
       = [EmbedCall (JStr (utf16 ''ab'')), RedisConnect,
          RedisHSet (utf16 ''pattern:bogus:solution:3105''), RedisQuit]
   \<and> fst (call_tool demo_env empty_world (utf16 ''set_reminder'') (JObj []))
       = Inr (ReminderSet \<lparr>rs_status = utf16 ''ok'', rs_reminder_id = utf16 ''r_0''\<rparr>)
   \<and> calls (snd (call_tool demo_env empty_world (utf16 ''set_reminder'') (JObj [])))
       = [RedisHSet (utf16 ''reminder:undefined'')]
   \<and> \<not> isl (fst (call_tool demo_env empty_world (utf16 ''check_reminders'') (JObj [])))
   \<and> calls (snd (call_tool demo_env empty_world (utf16 ''check_reminders'') (JObj [])))
       = [RedisHGetAll (utf16 ''reminder:undefined'')]
   \<and> truthy (JStr (utf16 ''bogus''))
   \<and> JStr (utf16 ''bogus'')
        \<notin> {JStr (utf16 ''episodic_to_semantic''), JStr (utf16 ''semantic_to_canonical''),
            JStr (utf16 ''both'')}
   \<and> candidate_ids
        (call_consolidate_memories demo_env demo_world3 (JObj [(utf16 ''promotion_type'', JStr (utf16 ''bogus''))]))
       = Some ([], [])
   \<and> snd (call_tool demo_env demo_world3 (utf16 ''consolidate_memories'')
             (JObj [(utf16 ''promotion_type'', JStr (utf16 ''bogus''))])) = demo_world3"
proof -
  let ?nometa = "[(utf16 ''category'', JStr (utf16 ''solution'')), (utf16 ''content'', JStr (utf16 ''ab''))]"
  let ?empty = "[(utf16 ''category'', JStr (utf16 ''solution'')), (utf16 ''memory_type'', JStr []),
           (utf16 ''content'', JStr (utf16 ''ab'')), (utf16 ''metadata'', md0)]"
  let ?bogus = "[(utf16 ''promotion_type'', JStr (utf16 ''bogus''))]"
  have names: "utf16 ''nope'' \<notin> set tool_names"
    "utf16 ''set_reminder'' \<in> set tool_names \<and> utf16 ''set_reminder'' \<noteq> utf16 ''health_check''"
    by (simp_all add: tool_names_def utf16_def)
  have u: "obj_get ?nometa (utf16 ''metadata'') = Undefined"
    "obj_get ?nometa (utf16 ''content'') = JStr (utf16 ''ab'')"
    "obj_get ?empty (utf16 ''memory_type'') = JStr []"
    "obj_get ?bogus (utf16 ''promotion_type'') = JStr (utf16 ''bogus'')"
    "obj_get [] (utf16 ''task_type'') = Undefined"
    by (simp_all add: obj_get_def utf16_def)
  have e: "generateEmbedding demo_env (JStr (utf16 ''ab'')) = Some [] \<and> redis_up demo_env
     \<and> utf16 ''bogus'' \<noteq> []
     \<and> utf16 ''bogus'' \<notin> {utf16 ''semantic'', utf16 ''episodic'', utf16 ''procedural''}"
    by (simp add: demo_env_def utf16_def)
  have b: "truthy (JStr (utf16 ''bogus''))
     \<and> JStr (utf16 ''bogus'')
        \<notin> {JStr (utf16 ''episodic_to_semantic''), JStr (utf16 ''semantic_to_canonical''),
            JStr (utf16 ''both'')}"
    by (simp add: utf16_def)
  have s: "obj_set ?empty (utf16 ''memory_type'') (JStr (utf16 ''semantic''))
        = [(utf16 ''category'', JStr (utf16 ''solution'')),
           (utf16 ''memory_type'', JStr (utf16 ''semantic'')),
           (utf16 ''content'', JStr (utf16 ''ab'')), (utf16 ''metadata'', md0)]"
    by (simp add: utf16_def)
  have sem: "fst (call_tool demo_env empty_world (utf16 ''store_pattern'') demo_args_empty_type)
       = Inr (Stored demo_semantic_result)"
    by (simp add: tool_evals demo_args_empty_type_def demo_semantic_result_def store_evals)
  have rid: "fst (call_tool demo_env empty_world (utf16 ''set_reminder'') (JObj []))
       = Inr (ReminderSet \<lparr>rs_status = utf16 ''ok'', rs_reminder_id = utf16 ''r_0''\<rparr>)"
    by (simp add: tool_evals int_digits_def store_evals)
  have cid: "candidate_ids
        (call_consolidate_memories demo_env demo_world3 (JObj ?bogus)) = Some ([], [])"
    by (simp add: candidate_ids_def call_consolidate_memories_def js_get_opt_def demo_evals)
  note t1 = tool_input_not_validated [of "utf16 ''nope''" demo_env empty_world "JObj []" ?nometa
              "utf16 ''ab''" "[]" "utf16 ''bogus''" "utf16 ''solution''"
              "[(utf16 ''confidence'', JNum (9 / 10)), (utf16 ''evidence_count'', JNum 7)]"]
  note t2 = tool_input_not_validated [of "utf16 ''set_reminder''" demo_env empty_world Undefined ?empty
              "utf16 ''ab''" "[]" "utf16 ''bogus''" "utf16 ''solution''" "[]"]
  note t3 = tool_input_not_validated [of "utf16 ''nope''" demo_env empty_world "JObj []" "[]"
              "utf16 ''ab''" "[]" "utf16 ''bogus''" "utf16 ''solution''" "[]"]
  note t4 = tool_input_not_validated [of "utf16 ''nope''" demo_env demo_world3 "JObj []" ?bogus
              "utf16 ''ab''" "[]" "utf16 ''bogus''" "utf16 ''solution''" "[]"]
  from t1 [THEN conjunct1] names have c1: "call_tool demo_env empty_world (utf16 ''nope'') (JObj []) = (Inl UnknownTool, empty_world)"
    by blast
  from t2 [THEN conjunct2, THEN conjunct1] names have c2: "call_tool demo_env empty_world (utf16 ''set_reminder'') Undefined = (Inl TypeError, empty_world)"
    by blast
  from t1 [THEN conjunct2, THEN conjunct2, THEN conjunct1] u obtain er where
    c3: "call_tool demo_env empty_world (utf16 ''store_pattern'') demo_args_no_metadata
          = (Inl er, empty_world\<lparr>calls := calls empty_world @ [EmbedCall (JStr (utf16 ''ab''))]\<rparr>)"
    by (auto simp: demo_args_no_metadata_def)
  from t2 [THEN conjunct2, THEN conjunct2, THEN conjunct2, THEN conjunct1] u s have c4: "call_tool demo_env empty_world (utf16 ''store_pattern'') demo_args_empty_type
       = call_tool demo_env empty_world (utf16 ''store_pattern'')
           (JObj [(utf16 ''category'', JStr (utf16 ''solution'')),
                  (utf16 ''memory_type'', JStr (utf16 ''semantic'')),
                  (utf16 ''content'', JStr (utf16 ''ab'')), (utf16 ''metadata'', md0)])"
    by (simp add: demo_args_empty_type_def)
  from t1 [THEN conjunct2, THEN conjunct2, THEN conjunct2, THEN conjunct2, THEN conjunct1] e obtain r w' where
    c5: "call_tool demo_env empty_world (utf16 ''store_pattern'') demo_args_bogus_type = (Inr (Stored r), w')"
       "calls w' = calls empty_world @ [EmbedCall (JStr (utf16 ''ab'')), RedisConnect, RedisHSet (pattern_id r), RedisQuit]"
    unfolding demo_args_bogus_type_def md0_def by blast
  have pid: "pattern_id r = utf16 ''pattern:bogus:solution:3105''"
  proof -
    have "fst (call_tool demo_env empty_world (utf16 ''store_pattern'') demo_args_bogus_type)
            = Inr (Stored \<lparr>pattern_id = utf16 ''pattern:bogus:solution:3105'',
                            memory_type = JStr (utf16 ''bogus''), ttl_seconds = Undefined,
                            status = utf16 ''stored''\<rparr>)"
      by (simp add: tool_evals demo_args_bogus_type_def store_evals)
    with c5(1) show ?thesis by auto
  qed
  from t3 [THEN conjunct2, THEN conjunct2, THEN conjunct2, THEN conjunct2, THEN conjunct2, THEN conjunct2, THEN conjunct1] e u obtain rr wr where
    c7: "call_tool demo_env empty_world (utf16 ''set_reminder'') (JObj []) = (Inr (ReminderSet rr), wr)"
        "calls wr = calls empty_world @ [RedisHSet (utf16 ''reminder:'' @ to_string demo_env Undefined)]"
    by auto
  from t3 [THEN conjunct2, THEN conjunct2, THEN conjunct2, THEN conjunct2, THEN conjunct2, THEN conjunct2, THEN conjunct2, THEN conjunct1] e u obtain rl where
    c8: "call_tool demo_env empty_world (utf16 ''check_reminders'') (JObj [])
          = (Inr (Reminders rl),
             empty_world\<lparr>calls := calls empty_world @ [RedisHGetAll (utf16 ''reminder:'' @ to_string demo_env Undefined)]\<rparr>)"
    by auto
  from t4 [THEN conjunct2, THEN conjunct2, THEN conjunct2, THEN conjunct2, THEN conjunct2, THEN conjunct2, THEN conjunct2, THEN conjunct2, THEN conjunct1] b u obtain rc where
    c9: "call_tool demo_env demo_world3 (utf16 ''consolidate_memories'') (JObj ?bogus) = (Inr (Consolidated rc), demo_world3)"
    by auto
  have ew: "calls empty_world = []" by (simp add: empty_world_def)
  have und: "utf16 ''reminder:'' @ to_string demo_env Undefined = utf16 ''reminder:undefined''"
    by (simp add: utf16_def)
  from names u e b c1 c2 c3 c4 c5 pid c7 c8 c9 sem rid cid ew und show ?thesis by simp
qed

end
